theory Spec2Isabelle
  imports Complex_Main
begin

section \<open>JavaScript values\<close>

text \<open>
  The activation code of the markdown extension (\<^verbatim>\<open>extensions/markdown/src/extension.ts\<close>)
  reads manifests of other extensions (\<^verbatim>\<open>packageJSON\<close>, typed \<^verbatim>\<open>any\<close>) and tests
  them with JavaScript truthiness, so the manifest data is modelled as untyped values.
  A number is a double: the finite ones are rationals, on which \<^verbatim>\<open>Math.floor\<close> is
  exact (the sign of zero is not kept).
\<close>

datatype jsnumber = NaN | PosInfinity | NegInfinity | Finite rat

definition isNaN :: "jsnumber \<Rightarrow> bool" where
  "isNaN n = (n = NaN)"

fun Math_floor :: "jsnumber \<Rightarrow> jsnumber" where
  "Math_floor (Finite q) = Finite (of_int \<lfloor>q\<rfloor>)"
| "Math_floor n = n"

datatype jsvalue =
    JsUndefined
  | JsNull
  | JsBoolean bool
  | JsNumber jsnumber
  | JsString string
  | JsFunction nat
  | JsArray "jsvalue list"
  | JsObject "(string \<times> jsvalue) list"

text \<open>Truthiness, as \<^verbatim>\<open>if (v)\<close>, \<^verbatim>\<open>!v\<close> and \<^verbatim>\<open>a && b\<close> test it.\<close>

fun truthy :: "jsvalue \<Rightarrow> bool" where
  "truthy JsUndefined = False"
| "truthy JsNull = False"
| "truthy (JsBoolean b) = b"
| "truthy (JsNumber n) = (n \<noteq> NaN \<and> n \<noteq> Finite 0)"
| "truthy (JsString s) = (s \<noteq> [])"
| "truthy (JsFunction f) = True"
| "truthy (JsArray xs) = True"
| "truthy (JsObject kvs) = True"

text \<open>
  Property read \<^verbatim>\<open>v[k]\<close> for the manifest keys the code uses (none of them is a
  built-in property of a string, an array or a function): an object yields the stored
  value, anything else \<^verbatim>\<open>undefined\<close>. Every read in the source sits behind a
  truthiness test of \<^verbatim>\<open>v\<close>, so the read of \<^verbatim>\<open>null\<close> or \<^verbatim>\<open>undefined\<close>, which would
  throw, is never reached.
\<close>

definition property :: "jsvalue \<Rightarrow> string \<Rightarrow> jsvalue" where
  "property v k =
     (case v of
        JsObject kvs \<Rightarrow> (case map_of kvs k of None \<Rightarrow> JsUndefined | Some x \<Rightarrow> x)
      | _ \<Rightarrow> JsUndefined)"

text \<open>\<^verbatim>\<open>typeof v === 'function'\<close>.\<close>

fun is_function :: "jsvalue \<Rightarrow> bool" where
  "is_function (JsFunction f) = True"
| "is_function v = False"

definition Array_isArray :: "jsvalue \<Rightarrow> bool" where
  "Array_isArray v = (case v of JsArray xs \<Rightarrow> True | _ \<Rightarrow> False)"

definition elements :: "jsvalue \<Rightarrow> jsvalue list" where
  "elements v = (case v of JsArray xs \<Rightarrow> xs | _ \<Rightarrow> [])"

section \<open>Editor data\<close>

datatype error = Error string

record uri =
  scheme :: string
  authority :: string
  uri_path :: string
  query :: string
  uri_fragment :: string

record document =
  uri :: uri
  languageId :: string

record editor =
  editor_id :: nat
  document :: document

record position =
  line :: jsnumber
  character :: jsnumber

record range =
  range_start :: position
  range_end :: position

record selection =
  anchor :: position
  active :: position

datatype reveal_type = Default | InCenter | InCenterIfOutsideViewport | AtTop

record extension =
  extension_id :: string
  extensionPath :: string
  packageJSON :: jsvalue

record IPackageInfo =
  name :: jsvalue
  version :: jsvalue
  aiKey :: jsvalue

record OpenDocumentLinkArgs =
  path :: string
  fragment :: string

record selection_event =
  textEditor :: editor
  selections :: "selection list"

record change_event =
  changed_document :: document

text \<open>
  The constructors of the host's editor types. \<^verbatim>\<open>new vscode.Position(line, character)\<close>
  throws when \<^verbatim>\<open>line < 0\<close> or \<^verbatim>\<open>character < 0\<close> (NaN passes both tests), and
  \<^verbatim>\<open>new vscode.Range(l1, c1, l2, c2)\<close> builds its two positions first. The source
  builds empty ranges only, so the swap of two ends given in the wrong order is left
  out. \<open>position_at\<close> and \<open>empty_range_at\<close> are the values that a successful
  construction yields.
\<close>

fun negative :: "jsnumber \<Rightarrow> bool" where
  "negative (Finite q) = (q < 0)"
| "negative NegInfinity = True"
| "negative PosInfinity = False"
| "negative NaN = False"

definition position_at :: "jsnumber \<Rightarrow> jsnumber \<Rightarrow> position" where
  "position_at l c = \<lparr>line = l, character = c\<rparr>"

definition empty_range_at :: "jsnumber \<Rightarrow> range" where
  "empty_range_at l =
     \<lparr>range_start = position_at l (Finite 0), range_end = position_at l (Finite 0)\<rparr>"

definition Position :: "jsnumber \<Rightarrow> jsnumber \<Rightarrow> error + position" where
  "Position l c =
     (if negative l then Inl (Error ''illegal argument: line must be non-negative'')
      else if negative c then Inl (Error ''illegal argument: character must be non-negative'')
      else Inr (position_at l c))"

definition Selection :: "position \<Rightarrow> position \<Rightarrow> selection" where
  "Selection a b = \<lparr>anchor = a, active = b\<rparr>"

definition Range :: "jsnumber \<Rightarrow> jsnumber \<Rightarrow> jsnumber \<Rightarrow> jsnumber \<Rightarrow> error + range" where
  "Range sl sc el ec =
     (case Position sl sc of
        Inl e \<Rightarrow> Inl e
      | Inr first \<Rightarrow>
          (case Position el ec of
             Inl e \<Rightarrow> Inl e
           | Inr second \<Rightarrow> Inr \<lparr>range_start = first, range_end = second\<rparr>))"

section \<open>Calls into the host and the collaborators\<close>

datatype telemetry_reporter = TelemetryReporter jsvalue jsvalue jsvalue

datatype managed_command =
    ShowPreviewCommand "telemetry_reporter option"
  | ShowPreviewToSideCommand "telemetry_reporter option"
  | ShowSourceCommand
  | RefreshPreviewCommand
  | RevealLineCommand
  | MoveCursorToPositionCommand

datatype disposable =
    TelemetryReporterDisposable telemetry_reporter
  | ContentProviderRegistration string
  | SymbolsProviderRegistration string
  | DocumentLinkProviderRegistration string
  | CommandManagerDisposable
  | CommandRegistration string
  | EventSubscription string

datatype command_arg =
    ArgUri uri
  | ArgRevealLine jsnumber string
  | ArgLine jsnumber

datatype call =
    OpenTextDocument uri
  | ShowTextDocument document
  | ExecuteCommand string "command_arg list"
  | TocLookup document string
  | RevealRange editor range reveal_type
  | SetSelection editor selection
  | ContentProviderUpdate uri
  | LoggerLog string "(string \<times> string) list"
  | RegisterTextDocumentContentProvider string
  | RegisterDocumentSymbolProvider string
  | AddStyle uri
  | AddScript uri
  | ExtensionActivate extension
  | AddPlugin extension
  | SubscriptionsPush disposable
  | CommandManagerRegister managed_command

text \<open>
  Everything the coordinator does not own is a parameter: the Node and host library
  functions, the collaborator modules of the extension that are imported by
  \<^verbatim>\<open>extension.ts\<close>, and the host itself, which has a state \<open>'h\<close> of its own that
  every operation may change. A function that returns a promise, and every function
  called inside a \<^verbatim>\<open>try\<close> block of the source, may fail (\<open>Inl\<close>); the calls that return
  nothing (\<^verbatim>\<open>revealRange\<close>, the selection setter, \<^verbatim>\<open>update\<close>, \<^verbatim>\<open>log\<close>, \<^verbatim>\<open>addPlugin\<close>,
  \<^verbatim>\<open>push\<close>, the registrations) only act on the host state, through \<open>effect\<close>.
\<close>

record 'h host =
  Uri_parse :: "jsvalue \<Rightarrow> error + uri"
  Uri_file :: "string \<Rightarrow> uri"
  Uri_toString :: "uri \<Rightarrow> string"
  fsPath :: "uri \<Rightarrow> string"
  path_join :: "string \<Rightarrow> jsvalue \<Rightarrow> error + string"
  path_extname :: "string \<Rightarrow> string"
  decodeURIComponent :: "string \<Rightarrow> error + string"
  isMarkdownFile :: "document \<Rightarrow> bool"
  getMarkdownUri :: "uri \<Rightarrow> uri"
  activeTextEditor :: "'h \<Rightarrow> editor option"
  extensions_all :: "'h \<Rightarrow> extension list"
  getExtension :: "'h \<Rightarrow> string \<Rightarrow> extension option"
  exports :: "'h \<Rightarrow> extension \<Rightarrow> jsvalue"
  openTextDocument :: "uri \<Rightarrow> 'h \<Rightarrow> (error + document) \<times> 'h"
  showTextDocument :: "document \<Rightarrow> 'h \<Rightarrow> (error + editor option) \<times> 'h"
  executeCommand :: "string \<Rightarrow> command_arg list \<Rightarrow> 'h \<Rightarrow> (error + unit) \<times> 'h"
  toc_lookup :: "document \<Rightarrow> string \<Rightarrow> 'h \<Rightarrow> (error + jsnumber) \<times> 'h"
  extension_activate :: "extension \<Rightarrow> 'h \<Rightarrow> (error + unit) \<times> 'h"
  addStyle :: "uri \<Rightarrow> 'h \<Rightarrow> (error + unit) \<times> 'h"
  addScript :: "uri \<Rightarrow> 'h \<Rightarrow> (error + unit) \<times> 'h"
  effect :: "call \<Rightarrow> 'h \<Rightarrow> 'h"

section \<open>Tasks: exceptions, promises and the trace of calls\<close>

text \<open>
  The world of the coordinator: the calls made so far, in order; the errors nobody
  caught, which the host reports at top level; the extensions whose \<^verbatim>\<open>activate()\<close>
  promise is still pending; the module variable \<^verbatim>\<open>telemetryReporter\<close>; the host state.
\<close>

record 'h world =
  calls :: "call list"
  unhandled :: "error list"
  pending :: "extension list"
  telemetryReporter :: "telemetry_reporter option"
  host_state :: 'h

text \<open>
  A task is a piece of code that ends with a value or with an error: a synchronous
  throw and a rejected promise are both \<open>Inl\<close>.
\<close>

type_synonym ('h, 'a) task = "'h world \<Rightarrow> (error + 'a) \<times> 'h world"

definition resolved :: "'a \<Rightarrow> ('h, 'a) task" where
  "resolved v w = (Inr v, w)"

definition rejected :: "error \<Rightarrow> ('h, 'a) task" where
  "rejected e w = (Inl e, w)"

definition then_do :: "('h, 'a) task \<Rightarrow> ('a \<Rightarrow> ('h, 'b) task) \<Rightarrow> ('h, 'b) task" where
  "then_do m f w = (case m w of (Inl e, w') \<Rightarrow> (Inl e, w') | (Inr v, w') \<Rightarrow> f v w')"

definition catch_do :: "('h, 'a) task \<Rightarrow> (error \<Rightarrow> ('h, 'a) task) \<Rightarrow> ('h, 'a) task" where
  "catch_do m f w = (case m w of (Inl e, w') \<Rightarrow> f e w' | (Inr v, w') \<Rightarrow> (Inr v, w'))"

definition await :: "('h \<Rightarrow> (error + 'a) \<times> 'h) \<Rightarrow> ('h, 'a) task" where
  "await op w = (case op (host_state w) of (r, h) \<Rightarrow> (r, w\<lparr>host_state := h\<rparr>))"

definition request :: "call \<Rightarrow> ('h \<Rightarrow> (error + 'a) \<times> 'h) \<Rightarrow> ('h, 'a) task" where
  "request c op w = await op (w\<lparr>calls := calls w @ [c]\<rparr>)"

definition perform :: "'h host \<Rightarrow> call \<Rightarrow> ('h, unit) task" where
  "perform H c w = (Inr (), w\<lparr>calls := calls w @ [c], host_state := effect H c (host_state w)\<rparr>)"

text \<open>A promise that nobody awaits: its rejection goes to the host's top level.\<close>

definition detached :: "('h, 'a) task \<Rightarrow> ('h, unit) task" where
  "detached m w =
     (case m w of
        (Inl e, w') \<Rightarrow> (Inr (), w'\<lparr>unhandled := unhandled w' @ [e]\<rparr>)
      | (Inr v, w') \<Rightarrow> (Inr (), w'))"

section \<open>Resolving contributed resources\<close>

definition resolveExtensionResources :: "'h host \<Rightarrow> extension \<Rightarrow> jsvalue \<Rightarrow> error + uri" where
  "resolveExtensionResources H extension stylePath =
     (case Uri_parse H stylePath of
        Inl e \<Rightarrow> Inl e
      | Inr resource \<Rightarrow>
          if scheme resource \<noteq> [] then Inr resource
          else (case path_join H (extensionPath extension) stylePath of
                  Inl e \<Rightarrow> Inl e
                | Inr joined \<Rightarrow> Inr (Uri_file H joined)))"

section \<open>Loops and the host calls that return promises\<close>

fun for_each :: "('a \<Rightarrow> ('h, unit) task) \<Rightarrow> 'a list \<Rightarrow> ('h, unit) task" where
  "for_each body [] = resolved ()"
| "for_each body (x # xs) = then_do (body x) (\<lambda>_. for_each body xs)"

definition in_order :: "('h, unit) task list \<Rightarrow> ('h, unit) task" where
  "in_order steps = for_each (\<lambda>step. step) steps"

definition vscode_openTextDocument :: "'h host \<Rightarrow> uri \<Rightarrow> ('h, document) task" where
  "vscode_openTextDocument H resource =
     request (OpenTextDocument resource) (openTextDocument H resource)"

definition vscode_showTextDocument :: "'h host \<Rightarrow> document \<Rightarrow> ('h, editor option) task" where
  "vscode_showTextDocument H doc = request (ShowTextDocument doc) (showTextDocument H doc)"

definition vscode_executeCommand :: "'h host \<Rightarrow> string \<Rightarrow> command_arg list \<Rightarrow> ('h, unit) task" where
  "vscode_executeCommand H command args =
     request (ExecuteCommand command args) (executeCommand H command args)"

definition toc_lookup_task :: "'h host \<Rightarrow> document \<Rightarrow> string \<Rightarrow> ('h, jsnumber) task" where
  "toc_lookup_task H doc text = request (TocLookup doc text) (toc_lookup H doc text)"

section \<open>Activation\<close>

definition getPackageInfo :: "'h host \<Rightarrow> 'h \<Rightarrow> IPackageInfo option" where
  "getPackageInfo H h =
     (case getExtension H h ''Microsoft.vscode-markdown'' of
        None \<Rightarrow> None
      | Some extention \<Rightarrow>
          if truthy (packageJSON extention)
          then Some \<lparr>name = property (packageJSON extention) ''name'',
                     version = property (packageJSON extention) ''version'',
                     aiKey = property (packageJSON extention) ''aiKey''\<rparr>
          else None)"

text \<open>\<^verbatim>\<open>packageInfo && new TelemetryReporter(name, version, aiKey)\<close>.\<close>

definition new_reporter :: "IPackageInfo option \<Rightarrow> telemetry_reporter option" where
  "new_reporter packageInfo =
     (case packageInfo of
        None \<Rightarrow> None
      | Some info \<Rightarrow> Some (TelemetryReporter (name info) (version info) (aiKey info)))"

text \<open>Lines 45 to 49: the module variable is assigned, and pushed when it is set.\<close>

definition initTelemetry :: "'h host \<Rightarrow> ('h, unit) task" where
  "initTelemetry H w =
     (let packageInfo = getPackageInfo H (host_state w);
          reporter = new_reporter packageInfo;
          w' = w\<lparr>telemetryReporter := reporter\<rparr>
      in case reporter of
           None \<Rightarrow> (Inr (), w')
         | Some r \<Rightarrow> perform H (SubscriptionsPush (TelemetryReporterDisposable r)) w')"

text \<open>The bodies of the two inner loops: a \<^verbatim>\<open>try\<close> whose \<^verbatim>\<open>catch\<close> does nothing.\<close>

definition registerStyle :: "'h host \<Rightarrow> extension \<Rightarrow> jsvalue \<Rightarrow> ('h, unit) task" where
  "registerStyle H extension style =
     catch_do
       (case resolveExtensionResources H extension style of
          Inl e \<Rightarrow> rejected e
        | Inr resource \<Rightarrow> request (AddStyle resource) (addStyle H resource))
       (\<lambda>e. resolved ())"

definition registerScript :: "'h host \<Rightarrow> extension \<Rightarrow> jsvalue \<Rightarrow> ('h, unit) task" where
  "registerScript H extension script =
     catch_do
       (case resolveExtensionResources H extension script of
          Inl e \<Rightarrow> rejected e
        | Inr resource \<Rightarrow> request (AddScript resource) (addScript H resource))
       (\<lambda>e. resolved ())"

text \<open>
  \<^verbatim>\<open>extension.activate().then(...)\<close>: the call is made inside the loop; its promise
  settles after the synchronous code of \<^verbatim>\<open>activate\<close>, so the extension is queued.
\<close>

definition startActivation :: "'h host \<Rightarrow> extension \<Rightarrow> ('h, unit) task" where
  "startActivation H extension =
     then_do (perform H (ExtensionActivate extension))
       (\<lambda>_ w. (Inr (), w\<lparr>pending := pending w @ [extension]\<rparr>))"

text \<open>The body of the loop over \<^verbatim>\<open>vscode.extensions.all\<close> (lines 60 to 95).\<close>

definition contribute :: "'h host \<Rightarrow> extension \<Rightarrow> ('h, unit) task" where
  "contribute H extension =
     (let contributes =
            (if truthy (packageJSON extension)
             then property (packageJSON extension) ''contributes''
             else packageJSON extension)
      in if \<not> truthy contributes then resolved ()
         else in_order
           [let styles = property contributes ''markdown.previewStyles''
            in if truthy styles \<and> Array_isArray styles
               then for_each (registerStyle H extension) (elements styles)
               else resolved (),
            let scripts = property contributes ''markdown.previewScripts''
            in if truthy scripts \<and> Array_isArray scripts
               then for_each (registerScript H extension) (elements scripts)
               else resolved (),
            if truthy (property contributes ''markdown.markdownItPlugins'')
            then startActivation H extension
            else resolved ()])"

definition activate :: "'h host \<Rightarrow> ('h, unit) task" where
  "activate H =
     in_order
       [initTelemetry H,
        perform H (RegisterTextDocumentContentProvider ''markdown''),
        (\<lambda>w. for_each (contribute H) (extensions_all H (host_state w)) w),
        perform H (RegisterDocumentSymbolProvider ''markdown''),
        perform H (SubscriptionsPush (ContentProviderRegistration ''markdown'')),
        perform H (SubscriptionsPush (SymbolsProviderRegistration ''markdown'')),
        perform H (SubscriptionsPush (DocumentLinkProviderRegistration ''markdown'')),
        perform H (SubscriptionsPush CommandManagerDisposable),
        (\<lambda>w. perform H (CommandManagerRegister (ShowPreviewCommand (telemetryReporter w))) w),
        (\<lambda>w. perform H (CommandManagerRegister (ShowPreviewToSideCommand (telemetryReporter w))) w),
        perform H (CommandManagerRegister ShowSourceCommand),
        perform H (CommandManagerRegister RefreshPreviewCommand),
        perform H (CommandManagerRegister RevealLineCommand),
        perform H (CommandManagerRegister MoveCursorToPositionCommand),
        perform H (SubscriptionsPush (CommandRegistration ''_markdown.didClick'')),
        perform H (SubscriptionsPush (CommandRegistration ''_markdown.openDocumentLink'')),
        perform H (SubscriptionsPush (CommandRegistration ''markdown.showPreviewSecuritySelector'')),
        perform H (SubscriptionsPush (CommandRegistration ''_markdown.onPreviewStyleLoadError'')),
        perform H (SubscriptionsPush (EventSubscription ''onDidSaveTextDocument'')),
        perform H (SubscriptionsPush (EventSubscription ''onDidChangeTextDocument'')),
        perform H (SubscriptionsPush (EventSubscription ''onDidChangeConfiguration'')),
        perform H (SubscriptionsPush (EventSubscription ''onDidChangeTextEditorSelection''))]"

text \<open>
  The continuation of \<^verbatim>\<open>extension.activate()\<close> (lines 89 to 93). Nothing awaits or
  catches the chain, so it is detached. The queued promises settle in the order of
  their calls.
\<close>

definition onActivated :: "'h host \<Rightarrow> extension \<Rightarrow> ('h, unit) task" where
  "onActivated H extension w =
     (if truthy (exports H (host_state w) extension)
         \<and> truthy (property (exports H (host_state w) extension) ''extendMarkdownIt'')
      then perform H (AddPlugin extension) w
      else resolved () w)"

definition settle :: "'h host \<Rightarrow> extension \<Rightarrow> ('h, unit) task" where
  "settle H extension =
     detached (then_do (await (extension_activate H extension)) (\<lambda>_. onActivated H extension))"

definition settlePending :: "'h host \<Rightarrow> ('h, unit) task" where
  "settlePending H w = for_each (settle H) (pending w) (w\<lparr>pending := []\<rparr>)"

section \<open>Command handlers\<close>

text \<open>\<^verbatim>\<open>_markdown.didClick\<close> (lines 113 to 127).\<close>

definition didClick :: "'h host \<Rightarrow> string \<Rightarrow> jsnumber \<Rightarrow> ('h, unit) task" where
  "didClick H uri_string lineArg =
     (case decodeURIComponent H uri_string of
        Inl e \<Rightarrow> rejected e
      | Inr decoded \<Rightarrow>
          (case Uri_parse H (JsString decoded) of
             Inl e \<Rightarrow> rejected e
           | Inr sourceUri \<Rightarrow>
               then_do
                 (then_do
                    (then_do (vscode_openTextDocument H sourceUri)
                       (\<lambda>doc. vscode_showTextDocument H doc))
                    (\<lambda>editor.
                       then_do
                         (vscode_executeCommand H ''revealLine''
                            [ArgRevealLine (Math_floor lineArg) ''center''])
                         (\<lambda>_. resolved editor)))
                 (\<lambda>editor.
                    case editor of
                      Some ed \<Rightarrow>
                        (case Position (Math_floor lineArg) (Finite 0) of
                           Inl e \<Rightarrow> rejected e
                         | Inr first \<Rightarrow>
                             (case Position (Math_floor lineArg) (Finite 0) of
                                Inl e \<Rightarrow> rejected e
                              | Inr second \<Rightarrow>
                                  perform H (SetSelection ed (Selection first second))))
                    | None \<Rightarrow> resolved ())))"

text \<open>\<^verbatim>\<open>_markdown.openDocumentLink\<close> (lines 129 to 162).\<close>

definition tryRevealLine :: "'h host \<Rightarrow> OpenDocumentLinkArgs \<Rightarrow> editor option \<Rightarrow> ('h, unit) task" where
  "tryRevealLine H args editor =
     (case editor of
        None \<Rightarrow> resolved ()
      | Some ed \<Rightarrow>
          if fragment args \<noteq> [] then
            then_do (toc_lookup_task H (document ed) (fragment args))
              (\<lambda>found. if \<not> isNaN found
                     then (case Range found (Finite 0) found (Finite 0) of
                             Inl e \<Rightarrow> rejected e
                           | Inr revealed \<Rightarrow> perform H (RevealRange ed revealed AtTop))
                     else resolved ())
          else resolved ())"

definition tryOpen :: "'h host \<Rightarrow> OpenDocumentLinkArgs \<Rightarrow> string \<Rightarrow> ('h, unit) task" where
  "tryOpen H args p w =
     (let active = activeTextEditor H (host_state w)
      in if (case active of
               None \<Rightarrow> False
             | Some ed \<Rightarrow> isMarkdownFile H (document ed) \<and> fsPath H (uri (document ed)) = p)
         then tryRevealLine H args active w
         else then_do
                (then_do (vscode_openTextDocument H (Uri_file H p))
                   (\<lambda>doc. vscode_showTextDocument H doc))
                (\<lambda>editor. tryRevealLine H args editor) w)"

text \<open>The callback of \<^verbatim>\<open>.catch\<close> (lines 153 to 161).\<close>

definition onOpenFailed :: "'h host \<Rightarrow> OpenDocumentLinkArgs \<Rightarrow> ('h, unit) task" where
  "onOpenFailed H args =
     (if path_extname H (path args) = []
      then tryOpen H args (path args @ ''.md'')
      else then_do
             (then_do (resolved ())
                (\<lambda>_. vscode_executeCommand H ''vscode.open'' [ArgUri (Uri_file H (path args))]))
             (\<lambda>_. resolved ()))"

definition openDocumentLink :: "'h host \<Rightarrow> OpenDocumentLinkArgs \<Rightarrow> ('h, unit) task" where
  "openDocumentLink H args = catch_do (tryOpen H args (path args)) (\<lambda>e. onOpenFailed H args)"

section \<open>Event handlers\<close>

definition onDidSaveTextDocument :: "'h host \<Rightarrow> document \<Rightarrow> ('h, unit) task" where
  "onDidSaveTextDocument H doc =
     (if isMarkdownFile H doc
      then perform H (ContentProviderUpdate (getMarkdownUri H (uri doc)))
      else resolved ())"

definition onDidChangeTextDocument :: "'h host \<Rightarrow> change_event \<Rightarrow> ('h, unit) task" where
  "onDidChangeTextDocument H event =
     (if isMarkdownFile H (changed_document event)
      then perform H (ContentProviderUpdate (getMarkdownUri H (uri (changed_document event))))
      else resolved ())"

text \<open>
  Lines 198 to 209. \<^verbatim>\<open>event.selections[0].active.line\<close> is evaluated after the call of
  the logger; on an empty array it throws a TypeError. The promise of
  \<^verbatim>\<open>executeCommand\<close> is dropped.
\<close>

definition onDidChangeTextEditorSelection :: "'h host \<Rightarrow> selection_event \<Rightarrow> ('h, unit) task" where
  "onDidChangeTextEditorSelection H event =
     (if isMarkdownFile H (document (textEditor event)) then
        (let markdownFile = getMarkdownUri H (uri (document (textEditor event)))
         in then_do
              (perform H (LoggerLog ''updatePreviewForSelection''
                            [(''markdownFile'', Uri_toString H markdownFile)]))
              (\<lambda>_. case selections event of
                      [] \<Rightarrow> rejected (Error ''TypeError'')
                    | first # others \<Rightarrow>
                        detached
                          (vscode_executeCommand H ''_workbench.htmlPreview.postMessage''
                             [ArgUri markdownFile, ArgLine (line (active first))])))
      else resolved ())"

section \<open>What the contributions loop is expected to do\<close>

text \<open>
  The calls expected from the manifests alone, without the control flow of the loop:
  for each extension, one \<open>AddStyle\<close> per declared style that resolves, one
  \<open>AddScript\<close> per declared script that resolves, and the call of
  \<^verbatim>\<open>extension.activate()\<close> when the plugin hook is declared. \<open>registrations\<close> is the
  list of calls that follow the loop in \<^verbatim>\<open>activate\<close> (lines 97 to 209).
\<close>

definition registered :: "(uri \<Rightarrow> call) \<Rightarrow> 'h host \<Rightarrow> extension \<Rightarrow> jsvalue list \<Rightarrow> call list" where
  "registered add H extension items =
     concat (map (\<lambda>item. case resolveExtensionResources H extension item of
                            Inl e \<Rightarrow> []
                          | Inr resource \<Rightarrow> [add resource]) items)"

definition declares_plugins :: "extension \<Rightarrow> bool" where
  "declares_plugins extension =
     truthy (property (property (packageJSON extension) ''contributes'') ''markdown.markdownItPlugins'')"

definition expected_contributions :: "'h host \<Rightarrow> extension \<Rightarrow> call list" where
  "expected_contributions H extension =
     (let contributes = property (packageJSON extension) ''contributes''
      in registered AddStyle H extension (elements (property contributes ''markdown.previewStyles''))
       @ registered AddScript H extension (elements (property contributes ''markdown.previewScripts''))
       @ (if declares_plugins extension then [ExtensionActivate extension] else []))"

definition registrations :: "telemetry_reporter option \<Rightarrow> call list" where
  "registrations reporter =
     [RegisterDocumentSymbolProvider ''markdown'',
      SubscriptionsPush (ContentProviderRegistration ''markdown''),
      SubscriptionsPush (SymbolsProviderRegistration ''markdown''),
      SubscriptionsPush (DocumentLinkProviderRegistration ''markdown''),
      SubscriptionsPush CommandManagerDisposable,
      CommandManagerRegister (ShowPreviewCommand reporter),
      CommandManagerRegister (ShowPreviewToSideCommand reporter),
      CommandManagerRegister ShowSourceCommand,
      CommandManagerRegister RefreshPreviewCommand,
      CommandManagerRegister RevealLineCommand,
      CommandManagerRegister MoveCursorToPositionCommand,
      SubscriptionsPush (CommandRegistration ''_markdown.didClick''),
      SubscriptionsPush (CommandRegistration ''_markdown.openDocumentLink''),
      SubscriptionsPush (CommandRegistration ''markdown.showPreviewSecuritySelector''),
      SubscriptionsPush (CommandRegistration ''_markdown.onPreviewStyleLoadError''),
      SubscriptionsPush (EventSubscription ''onDidSaveTextDocument''),
      SubscriptionsPush (EventSubscription ''onDidChangeTextDocument''),
      SubscriptionsPush (EventSubscription ''onDidChangeConfiguration''),
      SubscriptionsPush (EventSubscription ''onDidChangeTextEditorSelection'')]"

definition telemetry_push :: "telemetry_reporter option \<Rightarrow> call list" where
  "telemetry_push reporter =
     (case reporter of
        None \<Rightarrow> []
      | Some r \<Rightarrow> [SubscriptionsPush (TelemetryReporterDisposable r)])"

text \<open>
  \<^verbatim>\<open>vscode.extensions.all\<close> is read at line 60, when the calls of lines 45 to 57 have
  acted on the host: \<open>installed H w\<close> is the list that the loop of an activation
  started in \<open>w\<close> runs over.
\<close>

definition after_telemetry :: "'h host \<Rightarrow> 'h \<Rightarrow> 'h" where
  "after_telemetry H h =
     (case new_reporter (getPackageInfo H h) of
        None \<Rightarrow> h
      | Some r \<Rightarrow> effect H (SubscriptionsPush (TelemetryReporterDisposable r)) h)"

definition installed :: "'h host \<Rightarrow> 'h world \<Rightarrow> extension list" where
  "installed H w =
     extensions_all H
       (effect H (RegisterTextDocumentContentProvider ''markdown'')
          (after_telemetry H (host_state w)))"

text \<open>Tests on calls, used to count them in a trace.\<close>

fun isTelemetryPush :: "call \<Rightarrow> bool" where
  "isTelemetryPush (SubscriptionsPush (TelemetryReporterDisposable r)) = True"
| "isTelemetryPush c = False"

fun isAddStyle :: "call \<Rightarrow> bool" where
  "isAddStyle (AddStyle resource) = True"
| "isAddStyle c = False"

fun isAddScript :: "call \<Rightarrow> bool" where
  "isAddScript (AddScript resource) = True"
| "isAddScript c = False"

text \<open>Activation, followed by the settling of the promises it left pending.\<close>

definition startup :: "'h host \<Rightarrow> ('h, unit) task" where
  "startup H = then_do (activate H) (\<lambda>_. settlePending H)"

section \<open>A sample host\<close>

text \<open>
  A small host on which the definitions are evaluated: one markdown document that can
  be opened and is shown in the active editor, one plain text document, and six
  installed extensions. \<open>acme.theme\<close> declares four styles, of which the second is not
  a string and the third is refused by the content provider, and a script entry that
  is not an array; the first script of \<open>acme.plugin\<close> is refused by the content
  provider; \<open>acme.bare\<close> declares the plugin hook and exports nothing of use; the
  activation of \<open>acme.broken\<close> is rejected; \<open>acme.odd\<close> exports a string under the name
  of the hook.
\<close>

definition file_uri :: "string \<Rightarrow> uri" where
  "file_uri p = \<lparr>scheme = ''file'', authority = [], uri_path = p, query = [], uri_fragment = []\<rparr>"

definition readme :: document where
  "readme = \<lparr>uri = file_uri ''/docs/readme.md'', languageId = ''markdown''\<rparr>"

definition notes_txt :: document where
  "notes_txt = \<lparr>uri = file_uri ''/docs/notes.txt'', languageId = ''plaintext''\<rparr>"

definition readme_editor :: editor where
  "readme_editor = \<lparr>editor_id = 1, document = readme\<rparr>"

definition markdown_extension :: extension where
  "markdown_extension =
     \<lparr>extension_id = ''Microsoft.vscode-markdown'', extensionPath = ''/ext/markdown'',
      packageJSON = JsObject [(''name'', JsString ''vscode-markdown''),
                              (''version'', JsString ''1.0.0''),
                              (''aiKey'', JsString ''key'')]\<rparr>"

definition theme_extension :: extension where
  "theme_extension =
     \<lparr>extension_id = ''acme.theme'', extensionPath = ''/ext/theme'',
      packageJSON = JsObject [(''contributes'', JsObject
        [(''markdown.previewStyles'',
            JsArray [JsString ''https://cdn.example/a.css'', JsNumber (Finite 5),
                     JsString ''media/locked.css'', JsString ''media/b.css'']),
         (''markdown.previewScripts'', JsString ''main.js'')])]\<rparr>"

definition plugin_extension :: extension where
  "plugin_extension =
     \<lparr>extension_id = ''acme.plugin'', extensionPath = ''/ext/plugin'',
      packageJSON = JsObject [(''contributes'', JsObject
        [(''markdown.previewScripts'', JsArray [JsString ''js/locked.js'', JsString ''js/x.js'']),
         (''markdown.markdownItPlugins'', JsBoolean True)])]\<rparr>"

definition bare_extension :: extension where
  "bare_extension =
     \<lparr>extension_id = ''acme.bare'', extensionPath = ''/ext/bare'',
      packageJSON = JsObject [(''contributes'', JsObject
        [(''markdown.previewStyles'', JsString ''style.css''),
         (''markdown.markdownItPlugins'', JsBoolean True)])]\<rparr>"

definition broken_extension :: extension where
  "broken_extension =
     \<lparr>extension_id = ''acme.broken'', extensionPath = ''/ext/broken'',
      packageJSON = JsObject [(''contributes'', JsObject
        [(''markdown.markdownItPlugins'', JsBoolean True)])]\<rparr>"

definition odd_extension :: extension where
  "odd_extension =
     \<lparr>extension_id = ''acme.odd'', extensionPath = ''/ext/odd'',
      packageJSON = JsObject [(''contributes'', JsObject
        [(''markdown.markdownItPlugins'', JsBoolean True)])]\<rparr>"

definition sample_extensions :: "extension list" where
  "sample_extensions =
     [markdown_extension, theme_extension, plugin_extension, bare_extension, broken_extension,
      odd_extension]"

definition sample_parse :: "jsvalue \<Rightarrow> error + uri" where
  "sample_parse v =
     (case v of
        JsString s \<Rightarrow>
          if take 8 s = ''https://''
          then Inr \<lparr>scheme = ''https'', authority = [], uri_path = drop 8 s, query = [],
                    uri_fragment = []\<rparr>
          else if take 7 s = ''file://'' then Inr (file_uri (drop 7 s))
          else Inr \<lparr>scheme = [], authority = [], uri_path = s, query = [], uri_fragment = []\<rparr>
      | _ \<Rightarrow> Inl (Error ''not a string''))"

definition sample_extname :: "string \<Rightarrow> string" where
  "sample_extname p =
     (let base = takeWhile (\<lambda>c. c \<noteq> CHR ''/'') (rev p)
      in if CHR ''.'' \<in> set base
         then CHR ''.'' # rev (takeWhile (\<lambda>c. c \<noteq> CHR ''.'') base)
         else [])"

definition sample_host :: "unit host" where
  "sample_host =
     \<lparr>Uri_parse = sample_parse,
      Uri_file = file_uri,
      Uri_toString = (\<lambda>u. scheme u @ '':'' @ uri_path u),
      fsPath = uri_path,
      path_join = (\<lambda>dir v. case v of JsString s \<Rightarrow> Inr (dir @ ''/'' @ s)
                              | _ \<Rightarrow> Inl (Error ''not a string'')),
      path_extname = sample_extname,
      decodeURIComponent = (\<lambda>s. if CHR ''%'' \<in> set s then Inl (Error ''URIError'') else Inr s),
      isMarkdownFile = (\<lambda>d. languageId d = ''markdown''),
      getMarkdownUri = (\<lambda>u. u\<lparr>scheme := ''markdown''\<rparr>),
      activeTextEditor = (\<lambda>h. Some readme_editor),
      extensions_all = (\<lambda>h. sample_extensions),
      getExtension = (\<lambda>h i. if i = ''Microsoft.vscode-markdown'' then Some markdown_extension
                              else None),
      exports = (\<lambda>h e. if extension_id e = ''acme.plugin''
                         then JsObject [(''extendMarkdownIt'', JsFunction 0)]
                         else if extension_id e = ''acme.odd''
                         then JsObject [(''extendMarkdownIt'', JsString ''yes'')]
                         else JsObject []),
      openTextDocument = (\<lambda>u h. if u = file_uri ''/docs/readme.md'' then (Inr readme, h)
                                 else (Inl (Error ''file not found''), h)),
      showTextDocument = (\<lambda>d h. (Inr (Some \<lparr>editor_id = 2, document = d\<rparr>), h)),
      executeCommand = (\<lambda>c args h. if c = ''vscode.open'' then (Inl (Error ''cannot open''), h)
                                     else (Inr (), h)),
      toc_lookup = (\<lambda>d f h. (Inr (if f = ''intro'' then Finite 5 else NaN), h)),
      extension_activate = (\<lambda>e h. if extension_id e = ''acme.broken''
                                    then (Inl (Error ''activation failed''), h)
                                    else (Inr (), h)),
      addStyle = (\<lambda>u h. if uri_path u = ''/ext/theme/media/locked.css''
                          then (Inl (Error ''style refused''), h)
                          else (Inr (), h)),
      addScript = (\<lambda>u h. if uri_path u = ''/ext/plugin/js/locked.js''
                           then (Inl (Error ''script refused''), h)
                           else (Inr (), h)),
      effect = (\<lambda>c h. h)\<rparr>"

definition no_metadata_host :: "unit host" where
  "no_metadata_host = sample_host\<lparr>getExtension := (\<lambda>h i. None)\<rparr>"

definition world0 :: "unit world" where
  "world0 = \<lparr>calls = [], unhandled = [], pending = [], telemetryReporter = None, host_state = ()\<rparr>"

definition sample_info :: IPackageInfo where
  "sample_info = \<lparr>name = JsString ''vscode-markdown'', version = JsString ''1.0.0'',
                   aiKey = JsString ''key''\<rparr>"

definition cdn_style :: uri where
  "cdn_style = \<lparr>scheme = ''https'', authority = [], uri_path = ''cdn.example/a.css'', query = [],
                 uri_fragment = []\<rparr>"

definition bare_style :: uri where
  "bare_style = \<lparr>scheme = [], authority = [], uri_path = ''media/b.css'', query = [],
                 uri_fragment = []\<rparr>"

definition cursor_moved :: selection_event where
  "cursor_moved =
     \<lparr>textEditor = readme_editor,
      selections =
        [Selection (position_at (Finite 3) (Finite 0)) (position_at (Finite 4) (Finite 2)),
         Selection (position_at (Finite 9) (Finite 0)) (position_at (Finite 9) (Finite 0))]\<rparr>"

definition cursor_moved_elsewhere :: selection_event where
  "cursor_moved_elsewhere =
     \<lparr>textEditor = \<lparr>editor_id = 3, document = notes_txt\<rparr>,
      selections =
        [Selection (position_at (Finite 1) (Finite 0)) (position_at (Finite 1) (Finite 0))]\<rparr>"

section \<open>Rules for tasks\<close>

lemma resolved_apply [simp]: "resolved v w = (Inr v, w)"
  by (simp add: resolved_def)

lemma rejected_apply [simp]: "rejected e w = (Inl e, w)"
  by (simp add: rejected_def)

lemma perform_apply [simp]:
  "perform H c w = (Inr (), w\<lparr>calls := calls w @ [c], host_state := effect H c (host_state w)\<rparr>)"
  by (simp add: perform_def)

lemma then_do_Inr: "m w = (Inr v, w') \<Longrightarrow> then_do m f w = f v w'"
  by (simp add: then_do_def)

lemma catch_do_Inr: "m w = (Inr v, w') \<Longrightarrow> catch_do m f w = (Inr v, w')"
  by (simp add: catch_do_def)

lemma catch_do_Inl: "m w = (Inl e, w') \<Longrightarrow> catch_do m f w = f e w'"
  by (simp add: catch_do_def)

lemma then_do_unit: "then_do m resolved = m"
  by (rule ext) (simp add: then_do_def split: prod.splits sum.splits)

lemma in_order_Cons: "step w = (Inr (), w') \<Longrightarrow> in_order (step # steps) w = in_order steps w'"
  by (simp add: in_order_def then_do_Inr)

section \<open>The result of the loops\<close>

text \<open>
  Each loop ends normally and appends the expected calls; only the host state depends
  on what the collaborators did.
\<close>

lemma for_each_result:
  assumes body: "\<And>x w. \<exists>h. body x w =
      (Inr (), w\<lparr>calls := calls w @ out x, pending := pending w @ queued x, host_state := h\<rparr>)"
  shows "\<exists>h. for_each body xs w =
      (Inr (), w\<lparr>calls := calls w @ concat (map out xs),
                 pending := pending w @ concat (map queued xs), host_state := h\<rparr>)"
proof (induction xs arbitrary: w)
  case Nil
  have "w = w\<lparr>calls := calls w @ [], pending := pending w @ [], host_state := host_state w\<rparr>"
    by simp
  then have "for_each body [] w =
      (Inr (), w\<lparr>calls := calls w @ concat (map out []),
                 pending := pending w @ concat (map queued []), host_state := host_state w\<rparr>)"
    by simp
  then show ?case by (rule exI)
next
  case (Cons x xs)
  define w1 where "w1 h = w\<lparr>calls := calls w @ out x, pending := pending w @ queued x, host_state := h\<rparr>" for h
  obtain h1 where step: "body x w = (Inr (), w1 h1)"
    using body [of x w] by (auto simp: w1_def)
  obtain h2 where rest: "for_each body xs (w1 h1) =
      (Inr (), (w1 h1)\<lparr>calls := calls (w1 h1) @ concat (map out xs),
                 pending := pending (w1 h1) @ concat (map queued xs), host_state := h2\<rparr>)"
    using Cons.IH [of "w1 h1"] by auto
  have "for_each body (x # xs) w =
      (Inr (), w\<lparr>calls := calls w @ concat (map out (x # xs)),
                 pending := pending w @ concat (map queued (x # xs)), host_state := h2\<rparr>)"
    using step rest by (simp add: then_do_Inr w1_def)
  then show ?case by (rule exI)
qed

lemma registered_Nil [simp]: "registered add H extension [] = []"
  by (simp add: registered_def)

lemma concat_map_empty: "concat (map (\<lambda>x. []) xs) = []"
  by (induction xs) simp_all

lemma registered_concat:
  "concat (map (\<lambda>item. registered add H extension [item]) items) = registered add H extension items"
  by (simp add: registered_def)

lemma registered_member:
  "item \<in> set items \<Longrightarrow> resolveExtensionResources H extension item = Inr resource
     \<Longrightarrow> add resource \<in> set (registered add H extension items)"
  by (force simp: registered_def)

lemma registerStyle_result:
  "\<exists>h. registerStyle H extension item w =
     (Inr (), w\<lparr>calls := calls w @ registered AddStyle H extension [item],
                pending := pending w @ [], host_state := h\<rparr>)"
proof (cases "resolveExtensionResources H extension item")
  case (Inl e)
  then have "registerStyle H extension item w = (Inr (), w)"
    by (simp add: registerStyle_def catch_do_def)
  moreover have "w = w\<lparr>calls := calls w @ registered AddStyle H extension [item],
                        pending := pending w @ [], host_state := host_state w\<rparr>"
    using Inl by (simp add: registered_def)
  ultimately show ?thesis by metis
next
  case (Inr resource)
  obtain r h where op: "addStyle H resource (host_state w) = (r, h)"
    by (cases "addStyle H resource (host_state w)")
  have "registerStyle H extension item w =
          (Inr (), w\<lparr>calls := calls w @ [AddStyle resource], host_state := h\<rparr>)"
    using Inr op by (cases r) (simp_all add: registerStyle_def catch_do_def request_def await_def)
  then show ?thesis using Inr by (auto simp: registered_def)
qed

lemma registerScript_result:
  "\<exists>h. registerScript H extension item w =
     (Inr (), w\<lparr>calls := calls w @ registered AddScript H extension [item],
                pending := pending w @ [], host_state := h\<rparr>)"
proof (cases "resolveExtensionResources H extension item")
  case (Inl e)
  then have "registerScript H extension item w = (Inr (), w)"
    by (simp add: registerScript_def catch_do_def)
  moreover have "w = w\<lparr>calls := calls w @ registered AddScript H extension [item],
                        pending := pending w @ [], host_state := host_state w\<rparr>"
    using Inl by (simp add: registered_def)
  ultimately show ?thesis by metis
next
  case (Inr resource)
  obtain r h where op: "addScript H resource (host_state w) = (r, h)"
    by (cases "addScript H resource (host_state w)")
  have "registerScript H extension item w =
          (Inr (), w\<lparr>calls := calls w @ [AddScript resource], host_state := h\<rparr>)"
    using Inr op by (cases r) (simp_all add: registerScript_def catch_do_def request_def await_def)
  then show ?thesis using Inr by (auto simp: registered_def)
qed

lemma styles_loop_result:
  "\<exists>h. for_each (registerStyle H extension) items w =
     (Inr (), w\<lparr>calls := calls w @ registered AddStyle H extension items, host_state := h\<rparr>)"
  using for_each_result [where body = "registerStyle H extension"
      and out = "\<lambda>item. registered AddStyle H extension [item]" and queued = "\<lambda>item. []"
      and xs = items and w = w, OF registerStyle_result]
  by (simp add: registered_concat concat_map_empty)

lemma scripts_loop_result:
  "\<exists>h. for_each (registerScript H extension) items w =
     (Inr (), w\<lparr>calls := calls w @ registered AddScript H extension items, host_state := h\<rparr>)"
  using for_each_result [where body = "registerScript H extension"
      and out = "\<lambda>item. registered AddScript H extension [item]" and queued = "\<lambda>item. []"
      and xs = items and w = w, OF registerScript_result]
  by (simp add: registered_concat concat_map_empty)

lemma property_falsy: "\<not> truthy v \<Longrightarrow> property v k = JsUndefined"
  by (cases v) (simp_all add: property_def)

lemma elements_not_array: "\<not> Array_isArray v \<Longrightarrow> elements v = []"
  by (cases v) (simp_all add: elements_def Array_isArray_def)

lemma array_truthy: "Array_isArray v \<Longrightarrow> truthy v"
  by (cases v) (simp_all add: Array_isArray_def)

lemma no_contributes:
  assumes "\<not> truthy (property (packageJSON extension) ''contributes'')"
  shows "expected_contributions H extension = []" and "\<not> declares_plugins extension"
  using assms
  by (simp_all add: expected_contributions_def declares_plugins_def property_falsy elements_def
      registered_def)

lemma contribute_result:
  "\<exists>h. contribute H extension w =
     (Inr (), w\<lparr>calls := calls w @ expected_contributions H extension,
                pending := pending w @ (if declares_plugins extension then [extension] else []),
                host_state := h\<rparr>)"
proof (cases "truthy (property (packageJSON extension) ''contributes'')")
  case False
  then have "contribute H extension w = (Inr (), w)"
    by (cases "truthy (packageJSON extension)") (simp_all add: contribute_def Let_def)
  moreover have "w = w\<lparr>calls := calls w @ expected_contributions H extension,
                pending := pending w @ (if declares_plugins extension then [extension] else []),
                host_state := host_state w\<rparr>"
    using no_contributes(1) [OF False, of H] no_contributes(2) [OF False] by simp
  ultimately show ?thesis by metis
next
  case True
  define contributes where "contributes = property (packageJSON extension) ''contributes''"
  define styles where "styles = elements (property contributes ''markdown.previewStyles'')"
  define scripts where "scripts = elements (property contributes ''markdown.previewScripts'')"
  have pj: "truthy (packageJSON extension)"
    using True property_falsy by fastforce
  obtain h1 where s1: "for_each (registerStyle H extension) styles w =
     (Inr (), w\<lparr>calls := calls w @ registered AddStyle H extension styles, host_state := h1\<rparr>)"
    using styles_loop_result [of H extension styles w] by auto
  define w1 where "w1 = w\<lparr>calls := calls w @ registered AddStyle H extension styles, host_state := h1\<rparr>"
  have step1: "(let styles = property contributes ''markdown.previewStyles''
            in if truthy styles \<and> Array_isArray styles
               then for_each (registerStyle H extension) (elements styles)
               else resolved ()) w = (Inr (), w1)"
  proof (cases "Array_isArray (property contributes ''markdown.previewStyles'')")
    case True
    then show ?thesis using s1 by (simp add: array_truthy styles_def w1_def)
  next
    case False
    then have "styles = []" by (simp add: styles_def elements_not_array)
    then show ?thesis using s1 False by (simp add: w1_def)
  qed
  obtain h2 where s2: "for_each (registerScript H extension) scripts w1 =
     (Inr (), w1\<lparr>calls := calls w1 @ registered AddScript H extension scripts, host_state := h2\<rparr>)"
    using scripts_loop_result [of H extension scripts w1] by auto
  define w2 where "w2 = w1\<lparr>calls := calls w1 @ registered AddScript H extension scripts, host_state := h2\<rparr>"
  have step2: "(let scripts = property contributes ''markdown.previewScripts''
            in if truthy scripts \<and> Array_isArray scripts
               then for_each (registerScript H extension) (elements scripts)
               else resolved ()) w1 = (Inr (), w2)"
  proof (cases "Array_isArray (property contributes ''markdown.previewScripts'')")
    case True
    then show ?thesis using s2 by (simp add: array_truthy scripts_def w2_def)
  next
    case False
    then have "scripts = []" by (simp add: scripts_def elements_not_array)
    then show ?thesis using s2 False by (simp add: w2_def)
  qed
  have body: "contribute H extension w =
      (if truthy (property contributes ''markdown.markdownItPlugins'')
       then startActivation H extension else resolved ()) w2"
    using True pj step1 step2
    by (simp add: contribute_def contributes_def [symmetric] in_order_def then_do_Inr
        then_do_unit del: resolved_apply)
  show ?thesis
  proof (cases "declares_plugins extension")
    case True
    then have "contribute H extension w =
       (Inr (), w\<lparr>calls := calls w @ expected_contributions H extension,
                pending := pending w @ [extension],
                host_state := effect H (ExtensionActivate extension) h2\<rparr>)"
      using body
      by (cases w)
        (simp add: declares_plugins_def contributes_def startActivation_def then_do_def
          expected_contributions_def styles_def scripts_def w2_def w1_def Let_def)
    then show ?thesis using True by auto
  next
    case False
    then have "contribute H extension w =
       (Inr (), w\<lparr>calls := calls w @ expected_contributions H extension,
                pending := pending w @ [],
                host_state := h2\<rparr>)"
      using body
      by (cases w)
        (simp add: declares_plugins_def contributes_def
          expected_contributions_def styles_def scripts_def w2_def w1_def Let_def)
    then show ?thesis using False by auto
  qed
qed

lemma contributions_result:
  "\<exists>h. for_each (contribute H) extensions w =
     (Inr (), w\<lparr>calls := calls w @ concat (map (expected_contributions H) extensions),
                pending := pending w @ filter declares_plugins extensions,
                host_state := h\<rparr>)"
proof -
  have "concat (map (\<lambda>x. if declares_plugins x then [x] else []) extensions)
          = filter declares_plugins extensions"
    by (induction extensions) simp_all
  then show ?thesis
    using for_each_result [where body = "contribute H" and out = "expected_contributions H"
        and queued = "\<lambda>x. if declares_plugins x then [x] else []"
        and xs = extensions and w = w, OF contribute_result]
    by simp
qed

section \<open>The result of activation\<close>

lemma initTelemetry_result:
  "initTelemetry H w =
     (Inr (), w\<lparr>calls := calls w @ telemetry_push (new_reporter (getPackageInfo H (host_state w))),
                telemetryReporter := new_reporter (getPackageInfo H (host_state w)),
                host_state := after_telemetry H (host_state w)\<rparr>)"
  by (cases w; cases "getPackageInfo H (host_state w)")
     (simp_all add: initTelemetry_def new_reporter_def telemetry_push_def after_telemetry_def
       Let_def)

lemma registrations_result:
  "\<exists>h. in_order
       [perform H (RegisterDocumentSymbolProvider ''markdown''),
        perform H (SubscriptionsPush (ContentProviderRegistration ''markdown'')),
        perform H (SubscriptionsPush (SymbolsProviderRegistration ''markdown'')),
        perform H (SubscriptionsPush (DocumentLinkProviderRegistration ''markdown'')),
        perform H (SubscriptionsPush CommandManagerDisposable),
        (\<lambda>w. perform H (CommandManagerRegister (ShowPreviewCommand (telemetryReporter w))) w),
        (\<lambda>w. perform H (CommandManagerRegister (ShowPreviewToSideCommand (telemetryReporter w))) w),
        perform H (CommandManagerRegister ShowSourceCommand),
        perform H (CommandManagerRegister RefreshPreviewCommand),
        perform H (CommandManagerRegister RevealLineCommand),
        perform H (CommandManagerRegister MoveCursorToPositionCommand),
        perform H (SubscriptionsPush (CommandRegistration ''_markdown.didClick'')),
        perform H (SubscriptionsPush (CommandRegistration ''_markdown.openDocumentLink'')),
        perform H (SubscriptionsPush (CommandRegistration ''markdown.showPreviewSecuritySelector'')),
        perform H (SubscriptionsPush (CommandRegistration ''_markdown.onPreviewStyleLoadError'')),
        perform H (SubscriptionsPush (EventSubscription ''onDidSaveTextDocument'')),
        perform H (SubscriptionsPush (EventSubscription ''onDidChangeTextDocument'')),
        perform H (SubscriptionsPush (EventSubscription ''onDidChangeConfiguration'')),
        perform H (SubscriptionsPush (EventSubscription ''onDidChangeTextEditorSelection''))] w =
     (Inr (), w\<lparr>calls := calls w @ registrations (telemetryReporter w), host_state := h\<rparr>)"
  by (cases w) (simp add: in_order_def then_do_def registrations_def)

lemma activate_result:
  "\<exists>h. activate H w =
     (Inr (), w\<lparr>calls := calls w
                  @ telemetry_push (new_reporter (getPackageInfo H (host_state w)))
                  @ [RegisterTextDocumentContentProvider ''markdown'']
                  @ concat (map (expected_contributions H) (installed H w))
                  @ registrations (new_reporter (getPackageInfo H (host_state w))),
                pending := pending w @ filter declares_plugins (installed H w),
                telemetryReporter := new_reporter (getPackageInfo H (host_state w)),
                host_state := h\<rparr>)"
proof -
  define reporter where "reporter = new_reporter (getPackageInfo H (host_state w))"
  define h1 where "h1 = after_telemetry H (host_state w)"
  have s1: "initTelemetry H w =
      (Inr (), w\<lparr>calls := calls w @ telemetry_push reporter,
                 telemetryReporter := reporter, host_state := h1\<rparr>)"
    using initTelemetry_result [of H w] by (simp add: reporter_def h1_def)
  define w1 where "w1 = w\<lparr>calls := calls w @ telemetry_push reporter,
                 telemetryReporter := reporter, host_state := h1\<rparr>"
  define h2 where "h2 = effect H (RegisterTextDocumentContentProvider ''markdown'') h1"
  define w2 where "w2 = w1\<lparr>calls := calls w1 @ [RegisterTextDocumentContentProvider ''markdown''],
                 host_state := h2\<rparr>"
  have s2: "perform H (RegisterTextDocumentContentProvider ''markdown'') w1 = (Inr (), w2)"
    by (simp add: w2_def h2_def w1_def)
  define extensions where "extensions = installed H w"
  have read: "extensions_all H h2 = extensions"
    by (simp add: extensions_def installed_def h2_def h1_def)
  obtain h3 where s3: "for_each (contribute H) extensions w2 =
      (Inr (), w2\<lparr>calls := calls w2 @ concat (map (expected_contributions H) extensions),
                pending := pending w2 @ filter declares_plugins extensions,
                host_state := h3\<rparr>)"
    using contributions_result [of H extensions w2] by auto
  define w3 where "w3 = w2\<lparr>calls := calls w2 @ concat (map (expected_contributions H) extensions),
                pending := pending w2 @ filter declares_plugins extensions,
                host_state := h3\<rparr>"
  have s3': "(\<lambda>w. for_each (contribute H) (extensions_all H (host_state w)) w) w2 = (Inr (), w3)"
    using s3 by (simp add: w3_def read w2_def)
  have reporter3: "telemetryReporter w3 = reporter"
    by (simp add: w3_def w2_def w1_def)
  obtain h4 where s4: "activate H w =
      (Inr (), w3\<lparr>calls := calls w3 @ registrations reporter, host_state := h4\<rparr>)"
    unfolding activate_def
    using registrations_result [of H w3] s1 s2 s3'
    by (auto simp: in_order_Cons w1_def [symmetric] reporter3)
  have "activate H w =
     (Inr (), w\<lparr>calls := calls w @ telemetry_push reporter
                  @ [RegisterTextDocumentContentProvider ''markdown'']
                  @ concat (map (expected_contributions H) extensions)
                  @ registrations reporter,
                pending := pending w @ filter declares_plugins extensions,
                telemetryReporter := reporter,
                host_state := h4\<rparr>)"
    using s4 by (cases w) (simp add: w3_def w2_def w1_def)
  then show ?thesis unfolding reporter_def extensions_def by blast
qed

lemma registered_no_telemetry:
  "filter isTelemetryPush (registered AddStyle H extension items) = []"
  "filter isTelemetryPush (registered AddScript H extension items) = []"
  by (induction items) (simp_all add: registered_def split: sum.splits)

lemma registered_style_filters:
  "filter isAddStyle (registered AddScript H extension items) = []"
  "filter isAddScript (registered AddStyle H extension items) = []"
  by (induction items) (simp_all add: registered_def split: sum.splits)

lemma expected_no_telemetry:
  "filter isTelemetryPush (concat (map (expected_contributions H) extensions)) = []"
  by (induction extensions)
     (simp_all add: expected_contributions_def Let_def registered_no_telemetry)

lemma registrations_no_telemetry: "filter isTelemetryPush (registrations reporter) = []"
  by (simp add: registrations_def)

lemma expected_style_member:
  assumes "extension \<in> set extensions"
    and "item \<in> set (elements (property (property (packageJSON extension) ''contributes'')
                                     ''markdown.previewStyles''))"
    and "resolveExtensionResources H extension item = Inr resource"
  shows "AddStyle resource \<in> set (concat (map (expected_contributions H) extensions))"
proof -
  have "AddStyle resource \<in> set (expected_contributions H extension)"
    using registered_member [OF assms(2) assms(3), of AddStyle]
    by (simp add: expected_contributions_def Let_def)
  then show ?thesis using assms(1) by auto
qed

lemma expected_script_member:
  assumes "extension \<in> set extensions"
    and "item \<in> set (elements (property (property (packageJSON extension) ''contributes'')
                                     ''markdown.previewScripts''))"
    and "resolveExtensionResources H extension item = Inr resource"
  shows "AddScript resource \<in> set (concat (map (expected_contributions H) extensions))"
proof -
  have "AddScript resource \<in> set (expected_contributions H extension)"
    using registered_member [OF assms(2) assms(3), of AddScript]
    by (simp add: expected_contributions_def Let_def)
  then show ?thesis using assms(1) by auto
qed

lemma tryOpen_active:
  assumes "activeTextEditor H (host_state w) = Some ed"
    and "isMarkdownFile H (document ed)"
    and "fsPath H (uri (document ed)) = p"
  shows "tryOpen H args p w = tryRevealLine H args (Some ed) w"
  using assms by (simp add: tryOpen_def)

section \<open>Evaluation on the sample host\<close>

lemmas sample_defs = sample_host_def sample_extensions_def world0_def sample_parse_def sample_extname_def file_uri_def readme_def notes_txt_def
  readme_editor_def markdown_extension_def theme_extension_def plugin_extension_def
  bare_extension_def broken_extension_def odd_extension_def

lemmas model_defs = startup_def activate_def settlePending_def settle_def onActivated_def
  contribute_def registerStyle_def registerScript_def startActivation_def initTelemetry_def
  getPackageInfo_def new_reporter_def resolveExtensionResources_def in_order_def then_do_def catch_do_def
  detached_def request_def await_def property_def Array_isArray_def elements_def Let_def

lemmas handler_defs = openDocumentLink_def tryOpen_def onOpenFailed_def
     vscode_openTextDocument_def vscode_showTextDocument_def vscode_executeCommand_def
     tryRevealLine_def toc_lookup_task_def didClick_def

lemma installed_sample: "installed sample_host world0 = sample_extensions"
  by (simp add: installed_def sample_host_def world0_def)

section \<open>The claims\<close>

text \<open>
  Claim C1, as amended. A failure while resolving or registering a single contributed
  style or script is caught at that item: the item is skipped, the loop over the
  installed extensions goes on and ends normally, nothing is reported to the host's
  top level, and activation still registers every other declared item that resolves.
  In the document-link handler the failure of the first attempt to open is always
  caught: when the handler's promise is rejected, the first attempt had failed and the
  rejection is the one of the retry or of the generic open that followed it.
\<close>

theorem first_open_failure_and_resource_failures_are_caught:
  "(resolveExtensionResources H extension item = Inl e0
      \<longrightarrow> registerStyle H extension item w = (Inr (), w)
          \<and> registerScript H extension item w = (Inr (), w))
   \<and> (resolveExtensionResources H extension item = Inr resource
        \<and> addStyle H resource (host_state w) = (Inl e0, h)
      \<longrightarrow> registerStyle H extension item w =
            (Inr (), w\<lparr>calls := calls w @ [AddStyle resource], host_state := h\<rparr>))
   \<and> (resolveExtensionResources H extension item = Inr resource
        \<and> addScript H resource (host_state w) = (Inl e0, h)
      \<longrightarrow> registerScript H extension item w =
            (Inr (), w\<lparr>calls := calls w @ [AddScript resource], host_state := h\<rparr>))
   \<and> fst (for_each (contribute H) extensions w) = Inr ()
   \<and> unhandled (snd (for_each (contribute H) extensions w)) = unhandled w
   \<and> unhandled (snd (activate H w)) = unhandled w
   \<and> (extension \<in> set (installed H w)
        \<and> item \<in> set (elements (property (property (packageJSON extension) ''contributes'')
                                     ''markdown.previewStyles''))
        \<and> resolveExtensionResources H extension item = Inr resource
      \<longrightarrow> AddStyle resource \<in> set (calls (snd (activate H w))))
   \<and> (extension \<in> set (installed H w)
        \<and> item \<in> set (elements (property (property (packageJSON extension) ''contributes'')
                                     ''markdown.previewScripts''))
        \<and> resolveExtensionResources H extension item = Inr resource
      \<longrightarrow> AddScript resource \<in> set (calls (snd (activate H w))))
   \<and> (fst (openDocumentLink H args w') = Inl e
        \<longrightarrow> isl (fst (tryOpen H args (path args) w'))
            \<and> fst (onOpenFailed H args (snd (tryOpen H args (path args) w'))) = Inl e)"
proof -
  have unresolved: "registerStyle H extension item w = (Inr (), w)
          \<and> registerScript H extension item w = (Inr (), w)"
    if "resolveExtensionResources H extension item = Inl e0"
    using that by (simp add: registerStyle_def registerScript_def catch_do_def)
  have refused_style: "registerStyle H extension item w =
            (Inr (), w\<lparr>calls := calls w @ [AddStyle resource], host_state := h\<rparr>)"
    if "resolveExtensionResources H extension item = Inr resource"
      and "addStyle H resource (host_state w) = (Inl e0, h)"
    using that by (simp add: registerStyle_def catch_do_def request_def await_def)
  have refused_script: "registerScript H extension item w =
            (Inr (), w\<lparr>calls := calls w @ [AddScript resource], host_state := h\<rparr>)"
    if "resolveExtensionResources H extension item = Inr resource"
      and "addScript H resource (host_state w) = (Inl e0, h)"
    using that by (simp add: registerScript_def catch_do_def request_def await_def)
  obtain h' where loop: "for_each (contribute H) extensions w =
     (Inr (), w\<lparr>calls := calls w @ concat (map (expected_contributions H) extensions),
                pending := pending w @ filter declares_plugins extensions,
                host_state := h'\<rparr>)"
    using contributions_result [of H extensions w] by auto
  obtain h'' where run: "activate H w =
     (Inr (), w\<lparr>calls := calls w
                  @ telemetry_push (new_reporter (getPackageInfo H (host_state w)))
                  @ [RegisterTextDocumentContentProvider ''markdown'']
                  @ concat (map (expected_contributions H) (installed H w))
                  @ registrations (new_reporter (getPackageInfo H (host_state w))),
                pending := pending w @ filter declares_plugins (installed H w),
                telemetryReporter := new_reporter (getPackageInfo H (host_state w)),
                host_state := h''\<rparr>)"
    using activate_result [of H w] by auto
  have style: "AddStyle resource \<in> set (calls (snd (activate H w)))"
    if "extension \<in> set (installed H w)"
      and "item \<in> set (elements (property (property (packageJSON extension) ''contributes'')
                                     ''markdown.previewStyles''))"
      and "resolveExtensionResources H extension item = Inr resource"
    using expected_style_member [OF that] run by simp
  have script: "AddScript resource \<in> set (calls (snd (activate H w)))"
    if "extension \<in> set (installed H w)"
      and "item \<in> set (elements (property (property (packageJSON extension) ''contributes'')
                                     ''markdown.previewScripts''))"
      and "resolveExtensionResources H extension item = Inr resource"
    using expected_script_member [OF that] run by simp
  have caught: "isl (fst (tryOpen H args (path args) w'))
            \<and> fst (onOpenFailed H args (snd (tryOpen H args (path args) w'))) = Inl e"
    if "fst (openDocumentLink H args w') = Inl e"
  proof (cases "tryOpen H args (path args) w'")
    case (Pair r w1)
    show ?thesis
    proof (cases r)
      case (Inl e1)
      then show ?thesis using Pair that by (simp add: openDocumentLink_def catch_do_def)
    next
      case (Inr v)
      then show ?thesis using Pair that by (simp add: openDocumentLink_def catch_do_def)
    qed
  qed
  have ends: "fst (for_each (contribute H) extensions w) = Inr ()
      \<and> unhandled (snd (for_each (contribute H) extensions w)) = unhandled w
      \<and> unhandled (snd (activate H w)) = unhandled w"
    using loop run by simp
  show ?thesis
    using unresolved refused_style refused_script ends style script caught by blast
qed

text \<open>
  On the sample host: the second style of \<open>acme.theme\<close> does not resolve, the third is
  refused by the content provider and the fourth is registered by activation all the
  same, as is the second script of \<open>acme.plugin\<close> after the first was refused; a link
  to \<^verbatim>\<open>/x/y\<close>, where neither that file nor \<^verbatim>\<open>/x/y.md\<close> exists, is rejected by the retry.
\<close>

theorem first_open_failure_and_resource_failures_are_caught_witness:
  "resolveExtensionResources sample_host theme_extension (JsNumber (Finite 5))
     = Inl (Error ''not a string'')
   \<and> registerStyle sample_host theme_extension (JsNumber (Finite 5)) world0 = (Inr (), world0)
   \<and> resolveExtensionResources sample_host theme_extension (JsString ''media/locked.css'')
     = Inr (file_uri ''/ext/theme/media/locked.css'')
   \<and> addStyle sample_host (file_uri ''/ext/theme/media/locked.css'') (host_state world0)
     = (Inl (Error ''style refused''), ())
   \<and> registerStyle sample_host theme_extension (JsString ''media/locked.css'') world0
     = (Inr (), world0\<lparr>calls := [AddStyle (file_uri ''/ext/theme/media/locked.css'')]\<rparr>)
   \<and> resolveExtensionResources sample_host plugin_extension (JsString ''js/locked.js'')
     = Inr (file_uri ''/ext/plugin/js/locked.js'')
   \<and> addScript sample_host (file_uri ''/ext/plugin/js/locked.js'') (host_state world0)
     = (Inl (Error ''script refused''), ())
   \<and> registerScript sample_host plugin_extension (JsString ''js/locked.js'') world0
     = (Inr (), world0\<lparr>calls := [AddScript (file_uri ''/ext/plugin/js/locked.js'')]\<rparr>)
   \<and> theme_extension \<in> set (installed sample_host world0)
   \<and> AddStyle (file_uri ''/ext/theme/media/b.css'') \<in> set (calls (snd (activate sample_host world0)))
   \<and> plugin_extension \<in> set (installed sample_host world0)
   \<and> AddScript (file_uri ''/ext/plugin/js/x.js'') \<in> set (calls (snd (activate sample_host world0)))
   \<and> unhandled (snd (activate sample_host world0)) = []
   \<and> fst (openDocumentLink sample_host \<lparr>path = ''/x/y'', fragment = ''sec1''\<rparr> world0)
     = Inl (Error ''file not found'')
   \<and> isl (fst (tryOpen sample_host \<lparr>path = ''/x/y'', fragment = ''sec1''\<rparr> ''/x/y'' world0))
   \<and> fst (onOpenFailed sample_host \<lparr>path = ''/x/y'', fragment = ''sec1''\<rparr>
            (snd (tryOpen sample_host \<lparr>path = ''/x/y'', fragment = ''sec1''\<rparr> ''/x/y'' world0)))
       = Inl (Error ''file not found'')"
proof -
  have unresolved: "resolveExtensionResources sample_host theme_extension (JsNumber (Finite 5))
     = Inl (Error ''not a string'')"
    and locked_style: "resolveExtensionResources sample_host theme_extension
       (JsString ''media/locked.css'') = Inr (file_uri ''/ext/theme/media/locked.css'')"
    and locked_script: "resolveExtensionResources sample_host plugin_extension
       (JsString ''js/locked.js'') = Inr (file_uri ''/ext/plugin/js/locked.js'')"
    and style: "resolveExtensionResources sample_host theme_extension (JsString ''media/b.css'')
       = Inr (file_uri ''/ext/theme/media/b.css'')"
    and script: "resolveExtensionResources sample_host plugin_extension (JsString ''js/x.js'')
       = Inr (file_uri ''/ext/plugin/js/x.js'')"
    by (simp_all add: sample_defs resolveExtensionResources_def)
  have style_refused: "addStyle sample_host (file_uri ''/ext/theme/media/locked.css'')
       (host_state world0) = (Inl (Error ''style refused''), ())"
    and script_refused: "addScript sample_host (file_uri ''/ext/plugin/js/locked.js'')
       (host_state world0) = (Inl (Error ''script refused''), ())"
    by (simp_all add: sample_defs)
  have members: "theme_extension \<in> set (installed sample_host world0)"
    "plugin_extension \<in> set (installed sample_host world0)"
    by (simp_all add: installed_sample sample_extensions_def)
  have style_item: "JsString ''media/b.css''
      \<in> set (elements (property (property (packageJSON theme_extension) ''contributes'')
                                  ''markdown.previewStyles''))"
    and script_item: "JsString ''js/x.js''
      \<in> set (elements (property (property (packageJSON plugin_extension) ''contributes'')
                                  ''markdown.previewScripts''))"
    by (simp_all add: sample_defs property_def elements_def)
  have rejects: "fst (openDocumentLink sample_host \<lparr>path = ''/x/y'', fragment = ''sec1''\<rparr> world0)
     = Inl (Error ''file not found'')"
    by (simp add: sample_defs model_defs handler_defs)
  have start: "unhandled world0 = []" "calls world0 = []"
    "world0\<lparr>calls := [c], host_state := ()\<rparr> = world0\<lparr>calls := [c]\<rparr>" for c
    by (simp_all add: world0_def)
  have skipped: "registerStyle sample_host theme_extension (JsNumber (Finite 5)) world0
      = (Inr (), world0)"
    using unresolved
      first_open_failure_and_resource_failures_are_caught [where H = sample_host
        and extension = theme_extension and item = "JsNumber (Finite 5)" and w = world0
        and ?e0.0 = "Error ''not a string''"]
    by blast
  have style_caught: "registerStyle sample_host theme_extension (JsString ''media/locked.css'') world0
      = (Inr (), world0\<lparr>calls := [AddStyle (file_uri ''/ext/theme/media/locked.css'')]\<rparr>)"
    using locked_style style_refused
      first_open_failure_and_resource_failures_are_caught [where H = sample_host
        and extension = theme_extension and item = "JsString ''media/locked.css''" and w = world0
        and resource = "file_uri ''/ext/theme/media/locked.css''"
        and ?e0.0 = "Error ''style refused''" and h = "()"]
    by (simp add: start)
  have script_caught: "registerScript sample_host plugin_extension (JsString ''js/locked.js'') world0
      = (Inr (), world0\<lparr>calls := [AddScript (file_uri ''/ext/plugin/js/locked.js'')]\<rparr>)"
    using locked_script script_refused
      first_open_failure_and_resource_failures_are_caught [where H = sample_host
        and extension = plugin_extension and item = "JsString ''js/locked.js''" and w = world0
        and resource = "file_uri ''/ext/plugin/js/locked.js''"
        and ?e0.0 = "Error ''script refused''" and h = "()"]
    by (simp add: start)
  have style_added: "AddStyle (file_uri ''/ext/theme/media/b.css'')
       \<in> set (calls (snd (activate sample_host world0)))"
    using members style_item style
      first_open_failure_and_resource_failures_are_caught [where H = sample_host
        and extension = theme_extension and item = "JsString ''media/b.css''" and w = world0
        and resource = "file_uri ''/ext/theme/media/b.css''"]
    by blast
  have script_added: "AddScript (file_uri ''/ext/plugin/js/x.js'')
       \<in> set (calls (snd (activate sample_host world0)))"
    using members script_item script
      first_open_failure_and_resource_failures_are_caught [where H = sample_host
        and extension = plugin_extension and item = "JsString ''js/x.js''" and w = world0
        and resource = "file_uri ''/ext/plugin/js/x.js''"]
    by blast
  have quiet: "unhandled (snd (activate sample_host world0)) = []"
    using first_open_failure_and_resource_failures_are_caught [where H = sample_host
        and w = world0]
    by (simp add: start)
  have caught: "isl (fst (tryOpen sample_host \<lparr>path = ''/x/y'', fragment = ''sec1''\<rparr> ''/x/y'' world0))
   \<and> fst (onOpenFailed sample_host \<lparr>path = ''/x/y'', fragment = ''sec1''\<rparr>
            (snd (tryOpen sample_host \<lparr>path = ''/x/y'', fragment = ''sec1''\<rparr> ''/x/y'' world0)))
       = Inl (Error ''file not found'')"
    using rejects
      first_open_failure_and_resource_failures_are_caught [where H = sample_host
        and w' = world0 and args = "\<lparr>path = ''/x/y'', fragment = ''sec1''\<rparr>"
        and e = "Error ''file not found''"]
    by simp
  show ?thesis
    using unresolved locked_style locked_script style_refused script_refused members
      skipped style_caught script_caught style_added script_added quiet rejects caught
    by blast
qed

text \<open>
  The claim as it was stated fails: the rejected activation of \<open>acme.broken\<close> reaches
  the host's top level, and the link-click handler passes on the failure to open a
  missing document.
\<close>

theorem escaping_rejections_counterexample:
  "unhandled (snd (startup sample_host world0)) = [Error ''activation failed'']
   \<and> fst (didClick sample_host ''file:///docs/missing.md'' (Finite (7 / 2)) world0)
       = Inl (Error ''file not found'')"
  by (simp add: sample_defs model_defs handler_defs)

text \<open>
  Claim C2, as amended. When the first attempt succeeds, the handler ends with its
  result. When it fails and the path has no extension, the handler retries with
  \<^verbatim>\<open>.md\<close> appended and ends as the retry ends. When it fails and the path has an
  extension, the handler calls the host's \<^verbatim>\<open>vscode.open\<close> with the file URI of the path
  and ends as that command ends: a rejection is passed on.
\<close>

theorem openDocumentLink_fallback_chain:
  "(tryOpen H args (path args) w = (Inr v, w1) \<longrightarrow> openDocumentLink H args w = (Inr v, w1))
   \<and> (tryOpen H args (path args) w = (Inl e, w1) \<and> path_extname H (path args) = []
        \<longrightarrow> openDocumentLink H args w = tryOpen H args (path args @ ''.md'') w1)
   \<and> (tryOpen H args (path args) w = (Inl e, w1) \<and> path_extname H (path args) \<noteq> []
        \<and> executeCommand H ''vscode.open'' [ArgUri (Uri_file H (path args))] (host_state w1) = (r, h)
        \<longrightarrow> openDocumentLink H args w =
              (r, w1\<lparr>calls := calls w1 @ [ExecuteCommand ''vscode.open'' [ArgUri (Uri_file H (path args))]],
                     host_state := h\<rparr>))"
  by (cases r)
     (simp_all add: openDocumentLink_def onOpenFailed_def catch_do_def then_do_def
       vscode_executeCommand_def request_def await_def)

text \<open>
  On the sample host: a link to the document of the active editor, a link to
  \<^verbatim>\<open>/docs/readme\<close> (retried as \<^verbatim>\<open>/docs/readme.md\<close>) and a link to \<^verbatim>\<open>/x/y.txt\<close>.
\<close>

theorem openDocumentLink_fallback_chain_witness:
  "tryOpen sample_host \<lparr>path = ''/docs/readme.md'', fragment = []\<rparr> ''/docs/readme.md'' world0
     = (Inr (), world0)
   \<and> openDocumentLink sample_host \<lparr>path = ''/docs/readme.md'', fragment = []\<rparr> world0
     = (Inr (), world0)
   \<and> tryOpen sample_host \<lparr>path = ''/docs/readme'', fragment = ''intro''\<rparr> ''/docs/readme'' world0
     = (Inl (Error ''file not found''), world0\<lparr>calls := [OpenTextDocument (file_uri ''/docs/readme'')]\<rparr>)
   \<and> path_extname sample_host ''/docs/readme'' = []
   \<and> openDocumentLink sample_host \<lparr>path = ''/docs/readme'', fragment = ''intro''\<rparr> world0
     = tryOpen sample_host \<lparr>path = ''/docs/readme'', fragment = ''intro''\<rparr> ''/docs/readme.md''
         (world0\<lparr>calls := [OpenTextDocument (file_uri ''/docs/readme'')]\<rparr>)
   \<and> tryOpen sample_host \<lparr>path = ''/x/y.txt'', fragment = []\<rparr> ''/x/y.txt'' world0
     = (Inl (Error ''file not found''), world0\<lparr>calls := [OpenTextDocument (file_uri ''/x/y.txt'')]\<rparr>)
   \<and> path_extname sample_host ''/x/y.txt'' \<noteq> []
   \<and> openDocumentLink sample_host \<lparr>path = ''/x/y.txt'', fragment = []\<rparr> world0
     = (Inl (Error ''cannot open''),
        world0\<lparr>calls := [OpenTextDocument (file_uri ''/x/y.txt''),
                          ExecuteCommand ''vscode.open'' [ArgUri (file_uri ''/x/y.txt'')]]\<rparr>)"
proof -
  have opened: "tryOpen sample_host \<lparr>path = ''/docs/readme.md'', fragment = []\<rparr>
        (path \<lparr>path = ''/docs/readme.md'', fragment = []\<rparr>) world0 = (Inr (), world0)"
    by (simp add: sample_defs model_defs handler_defs)
  have no_extension: "tryOpen sample_host \<lparr>path = ''/docs/readme'', fragment = ''intro''\<rparr>
        (path \<lparr>path = ''/docs/readme'', fragment = ''intro''\<rparr>) world0
      = (Inl (Error ''file not found''), world0\<lparr>calls := [OpenTextDocument (file_uri ''/docs/readme'')]\<rparr>)
      \<and> path_extname sample_host (path \<lparr>path = ''/docs/readme'', fragment = ''intro''\<rparr>) = []"
    by (simp add: sample_defs model_defs handler_defs)
  have extension: "tryOpen sample_host \<lparr>path = ''/x/y.txt'', fragment = []\<rparr>
        (path \<lparr>path = ''/x/y.txt'', fragment = []\<rparr>) world0
      = (Inl (Error ''file not found''), world0\<lparr>calls := [OpenTextDocument (file_uri ''/x/y.txt'')]\<rparr>)
      \<and> path_extname sample_host (path \<lparr>path = ''/x/y.txt'', fragment = []\<rparr>) \<noteq> []
      \<and> executeCommand sample_host ''vscode.open''
            [ArgUri (Uri_file sample_host (path \<lparr>path = ''/x/y.txt'', fragment = []\<rparr>))]
            (host_state (world0\<lparr>calls := [OpenTextDocument (file_uri ''/x/y.txt'')]\<rparr>))
          = (Inl (Error ''cannot open''), ())"
    by (simp add: sample_defs model_defs handler_defs)
  have evaluated: "Uri_file sample_host = file_uri" "host_state world0 = ()"
    by (simp_all add: sample_defs)
  show ?thesis
    using opened no_extension extension
      openDocumentLink_fallback_chain [where H = sample_host and w = world0
        and args = "\<lparr>path = ''/docs/readme.md'', fragment = []\<rparr>" and v = "()" and ?w1.0 = world0]
      openDocumentLink_fallback_chain [where H = sample_host and w = world0
        and args = "\<lparr>path = ''/docs/readme'', fragment = ''intro''\<rparr>"
        and e = "Error ''file not found''"
        and ?w1.0 = "world0\<lparr>calls := [OpenTextDocument (file_uri ''/docs/readme'')]\<rparr>"]
      openDocumentLink_fallback_chain [where H = sample_host and w = world0
        and args = "\<lparr>path = ''/x/y.txt'', fragment = []\<rparr>"
        and e = "Error ''file not found''"
        and ?w1.0 = "world0\<lparr>calls := [OpenTextDocument (file_uri ''/x/y.txt'')]\<rparr>"
        and r = "Inl (Error ''cannot open'')" and h = "()"]
    by (simp add: evaluated)
qed

text \<open>
  The claim as it was stated fails: after a failed retry the generic open is not called
  and the promise is rejected, and a rejection of the generic open is not suppressed.
\<close>

theorem failed_retry_counterexample:
  "openDocumentLink sample_host \<lparr>path = ''/x/y'', fragment = ''sec1''\<rparr> world0
     = (Inl (Error ''file not found''),
        world0\<lparr>calls := [OpenTextDocument (file_uri ''/x/y''),
                          OpenTextDocument (file_uri ''/x/y.md'')]\<rparr>)
   \<and> openDocumentLink sample_host \<lparr>path = ''/x/y.txt'', fragment = ''sec1''\<rparr> world0
     = (Inl (Error ''cannot open''),
        world0\<lparr>calls := [OpenTextDocument (file_uri ''/x/y.txt''),
                          ExecuteCommand ''vscode.open'' [ArgUri (file_uri ''/x/y.txt'')]]\<rparr>)"
  by (simp add: sample_defs model_defs handler_defs)

text \<open>
  Claim C3. When the path of the link is the path of the markdown document in the
  active editor and the fragment is not empty, the handler neither opens nor shows a
  document. If the table of contents yields a line (a number that is neither NaN nor
  negative), the only calls are the lookup and the reveal of that line at the top of
  the viewport; if it yields NaN, the only call is the lookup. In both cases the
  handler ends without an error.
\<close>

theorem link_to_active_document_reveals_without_reopening:
  assumes "activeTextEditor H (host_state w) = Some ed"
    and "isMarkdownFile H (document ed)"
    and "fsPath H (uri (document ed)) = path args"
    and "fragment args \<noteq> []"
  shows "(toc_lookup H (document ed) (fragment args) (host_state w) = (Inr found, h1)
            \<and> found \<noteq> NaN \<and> \<not> negative found
          \<longrightarrow> openDocumentLink H args w =
                (Inr (),
                 w\<lparr>calls := calls w @
                      [TocLookup (document ed) (fragment args),
                       RevealRange ed (empty_range_at found) AtTop],
                    host_state :=
                      effect H (RevealRange ed (empty_range_at found) AtTop) h1\<rparr>))
       \<and> (toc_lookup H (document ed) (fragment args) (host_state w) = (Inr NaN, h1)
          \<longrightarrow> openDocumentLink H args w =
                (Inr (), w\<lparr>calls := calls w @ [TocLookup (document ed) (fragment args)],
                           host_state := h1\<rparr>))"
proof -
  have active: "tryOpen H args (path args) w = tryRevealLine H args (Some ed) w"
    using assms(1-3) by (rule tryOpen_active)
  have revealed: "tryRevealLine H args (Some ed) w =
                (Inr (),
                 w\<lparr>calls := calls w @
                      [TocLookup (document ed) (fragment args),
                       RevealRange ed (empty_range_at found) AtTop],
                    host_state :=
                      effect H (RevealRange ed (empty_range_at found) AtTop) h1\<rparr>)"
    if "toc_lookup H (document ed) (fragment args) (host_state w) = (Inr found, h1)"
      and "found \<noteq> NaN" and "\<not> negative found"
    using that assms(4)
    by (cases w)
       (simp add: tryRevealLine_def then_do_def toc_lookup_task_def request_def await_def isNaN_def
         Range_def Position_def empty_range_at_def)
  have silent: "tryRevealLine H args (Some ed) w =
                (Inr (), w\<lparr>calls := calls w @ [TocLookup (document ed) (fragment args)],
                           host_state := h1\<rparr>)"
    if "toc_lookup H (document ed) (fragment args) (host_state w) = (Inr NaN, h1)"
    using that assms(4)
    by (simp add: tryRevealLine_def then_do_def toc_lookup_task_def request_def await_def isNaN_def)
  show ?thesis
    using revealed silent by (simp add: openDocumentLink_def catch_do_def active)
qed

text \<open>On the sample host: \<^verbatim>\<open>intro\<close> is on line 5, \<^verbatim>\<open>gone\<close> is not a heading.\<close>

theorem link_to_active_document_witness:
  "activeTextEditor sample_host (host_state world0) = Some readme_editor
   \<and> isMarkdownFile sample_host (document readme_editor)
   \<and> fsPath sample_host (uri (document readme_editor)) = ''/docs/readme.md''
   \<and> openDocumentLink sample_host \<lparr>path = ''/docs/readme.md'', fragment = ''intro''\<rparr> world0
       = (Inr (),
          world0\<lparr>calls := [TocLookup readme ''intro'',
                            RevealRange readme_editor (empty_range_at (Finite 5)) AtTop]\<rparr>)
   \<and> openDocumentLink sample_host \<lparr>path = ''/docs/readme.md'', fragment = ''gone''\<rparr> world0
       = (Inr (), world0\<lparr>calls := [TocLookup readme ''gone'']\<rparr>)"
proof -
  have active: "activeTextEditor sample_host (host_state world0) = Some readme_editor"
    and markdown: "isMarkdownFile sample_host (document readme_editor)"
    by (simp_all add: sample_defs)
  have same_path: "fsPath sample_host (uri (document readme_editor)) = path \<lparr>path = ''/docs/readme.md'', fragment = anchor\<rparr>" for anchor
    by (simp add: sample_defs)
  have found: "toc_lookup sample_host (document readme_editor) ''intro'' (host_state world0)
      = (Inr (Finite 5), ())"
    and line_number: "Finite 5 \<noteq> NaN \<and> \<not> negative (Finite 5)"
    and missing: "toc_lookup sample_host (document readme_editor) ''gone'' (host_state world0)
      = (Inr NaN, ())"
    by (simp_all add: sample_defs)
  have evaluated: "document readme_editor = readme" "calls world0 = []" "effect sample_host = (\<lambda>c h. h)"
    "fsPath sample_host (uri readme) = ''/docs/readme.md''"
    by (simp_all add: sample_defs)
  show ?thesis
    using active markdown found line_number missing
      link_to_active_document_reveals_without_reopening
        [where H = sample_host and w = world0 and ed = readme_editor
           and args = "\<lparr>path = ''/docs/readme.md'', fragment = ''intro''\<rparr>"
           and found = "Finite 5" and ?h1.0 = "()", OF active markdown same_path]
      link_to_active_document_reveals_without_reopening
        [where H = sample_host and w = world0 and ed = readme_editor
           and args = "\<lparr>path = ''/docs/readme.md'', fragment = ''gone''\<rparr>"
           and ?h1.0 = "()", OF active markdown same_path]
    by (simp add: evaluated world0_def)
qed

text \<open>
  Claim C4. A contributed path whose parsed URI has a scheme resolves to that URI,
  whatever the extension is; a path whose parsed URI has no scheme resolves to the file
  URI of the path joined to the install directory of the extension.
\<close>

theorem resolveExtensionResources_scheme:
  "(Uri_parse H stylePath = Inr resource \<and> scheme resource \<noteq> []
      \<longrightarrow> resolveExtensionResources H extension stylePath = Inr resource)
   \<and> (Uri_parse H stylePath = Inr resource \<and> scheme resource = []
        \<and> path_join H (extensionPath extension) stylePath = Inr joined
      \<longrightarrow> resolveExtensionResources H extension stylePath = Inr (Uri_file H joined))"
  by (simp add: resolveExtensionResources_def)

text \<open>On the sample host: an \<^verbatim>\<open>https\<close> style and a relative style of \<open>acme.theme\<close>.\<close>

theorem resolveExtensionResources_scheme_witness:
  "Uri_parse sample_host (JsString ''https://cdn.example/a.css'') = Inr cdn_style
   \<and> scheme cdn_style \<noteq> []
   \<and> resolveExtensionResources sample_host theme_extension (JsString ''https://cdn.example/a.css'')
       = Inr cdn_style
   \<and> Uri_parse sample_host (JsString ''media/b.css'') = Inr bare_style
   \<and> scheme bare_style = []
   \<and> path_join sample_host (extensionPath theme_extension) (JsString ''media/b.css'')
       = Inr ''/ext/theme/media/b.css''
   \<and> resolveExtensionResources sample_host theme_extension (JsString ''media/b.css'')
       = Inr (file_uri ''/ext/theme/media/b.css'')"
proof -
  have with_scheme: "Uri_parse sample_host (JsString ''https://cdn.example/a.css'') = Inr cdn_style
      \<and> scheme cdn_style \<noteq> []"
    by (simp add: sample_defs cdn_style_def)
  have bare: "Uri_parse sample_host (JsString ''media/b.css'') = Inr bare_style
      \<and> scheme bare_style = []
      \<and> path_join sample_host (extensionPath theme_extension) (JsString ''media/b.css'')
          = Inr ''/ext/theme/media/b.css''"
    by (simp add: sample_defs bare_style_def)
  have as_file: "Uri_file sample_host = file_uri"
    by (simp add: sample_host_def)
  show ?thesis
    using with_scheme bare
      resolveExtensionResources_scheme [where H = sample_host and extension = theme_extension
        and stylePath = "JsString ''https://cdn.example/a.css''" and resource = cdn_style]
      resolveExtensionResources_scheme [where H = sample_host and extension = theme_extension
        and stylePath = "JsString ''media/b.css''" and resource = bare_style
        and joined = "''/ext/theme/media/b.css''"]
    by (simp add: as_file)
qed

text \<open>
  Claim C5. On a saved or changed markdown document the handler makes exactly one call,
  the update of the content provider with the preview URI of the document; on any other
  document it makes none.
\<close>

theorem save_and_change_refresh_preview:
  "(isMarkdownFile H doc \<longrightarrow>
      onDidSaveTextDocument H doc w =
        (Inr (), w\<lparr>calls := calls w @ [ContentProviderUpdate (getMarkdownUri H (uri doc))],
                   host_state := effect H (ContentProviderUpdate (getMarkdownUri H (uri doc))) (host_state w)\<rparr>)
      \<and> onDidChangeTextDocument H \<lparr>changed_document = doc\<rparr> w =
        (Inr (), w\<lparr>calls := calls w @ [ContentProviderUpdate (getMarkdownUri H (uri doc))],
                   host_state := effect H (ContentProviderUpdate (getMarkdownUri H (uri doc))) (host_state w)\<rparr>))
   \<and> (\<not> isMarkdownFile H doc \<longrightarrow>
      onDidSaveTextDocument H doc w = (Inr (), w)
      \<and> onDidChangeTextDocument H \<lparr>changed_document = doc\<rparr> w = (Inr (), w))"
  by (simp add: onDidSaveTextDocument_def onDidChangeTextDocument_def)

text \<open>On the sample host: the markdown document and the plain text document.\<close>

theorem save_and_change_refresh_preview_witness:
  "isMarkdownFile sample_host readme
   \<and> calls (snd (onDidSaveTextDocument sample_host readme world0))
       = [ContentProviderUpdate (getMarkdownUri sample_host (uri readme))]
   \<and> calls (snd (onDidChangeTextDocument sample_host \<lparr>changed_document = readme\<rparr> world0))
       = [ContentProviderUpdate (getMarkdownUri sample_host (uri readme))]
   \<and> \<not> isMarkdownFile sample_host notes_txt
   \<and> calls (snd (onDidSaveTextDocument sample_host notes_txt world0)) = []
   \<and> calls (snd (onDidChangeTextDocument sample_host \<lparr>changed_document = notes_txt\<rparr> world0)) = []"
proof -
  have markdown: "isMarkdownFile sample_host readme"
    by (simp add: sample_defs)
  have plain: "\<not> isMarkdownFile sample_host notes_txt"
    by (simp add: sample_defs)
  have start: "calls world0 = []"
    by (simp add: world0_def)
  show ?thesis
    using markdown plain
      save_and_change_refresh_preview [of sample_host readme world0]
      save_and_change_refresh_preview [of sample_host notes_txt world0]
    by (simp add: start)
qed

text \<open>
  Claim C6. When the selection changes in an editor of a markdown document, the handler
  logs the event and then executes the post-message command of the preview once, with
  the preview URI and the active line of the first selection; in an editor of another
  document it does nothing.
\<close>

theorem selection_change_forwards_active_line:
  "(isMarkdownFile H (document (textEditor event)) \<and> selections event = first # others
      \<longrightarrow> calls (snd (onDidChangeTextEditorSelection H event w)) =
            calls w @
            [LoggerLog ''updatePreviewForSelection''
               [(''markdownFile'', Uri_toString H (getMarkdownUri H (uri (document (textEditor event)))))],
             ExecuteCommand ''_workbench.htmlPreview.postMessage''
               [ArgUri (getMarkdownUri H (uri (document (textEditor event)))),
                ArgLine (line (active first))]])
   \<and> (\<not> isMarkdownFile H (document (textEditor event))
      \<longrightarrow> onDidChangeTextEditorSelection H event w = (Inr (), w))"
  by (simp add: onDidChangeTextEditorSelection_def Let_def then_do_def detached_def
      vscode_executeCommand_def request_def await_def split: prod.splits sum.splits)

text \<open>
  On the sample host: two selections in the markdown editor, the first with its active
  end on line 4, and a selection in the editor of the plain text document.
\<close>

theorem selection_change_forwards_active_line_witness:
  "isMarkdownFile sample_host (document (textEditor cursor_moved))
   \<and> selections cursor_moved
       = Selection (position_at (Finite 3) (Finite 0)) (position_at (Finite 4) (Finite 2))
         # [Selection (position_at (Finite 9) (Finite 0)) (position_at (Finite 9) (Finite 0))]
   \<and> calls (snd (onDidChangeTextEditorSelection sample_host cursor_moved world0))
       = [LoggerLog ''updatePreviewForSelection'' [(''markdownFile'', ''markdown:/docs/readme.md'')],
          ExecuteCommand ''_workbench.htmlPreview.postMessage''
            [ArgUri ((file_uri ''/docs/readme.md'')\<lparr>scheme := ''markdown''\<rparr>), ArgLine (Finite 4)]]
   \<and> \<not> isMarkdownFile sample_host (document (textEditor cursor_moved_elsewhere))
   \<and> onDidChangeTextEditorSelection sample_host cursor_moved_elsewhere world0 = (Inr (), world0)"
proof -
  have markdown: "isMarkdownFile sample_host (document (textEditor cursor_moved))
      \<and> selections cursor_moved
       = Selection (position_at (Finite 3) (Finite 0)) (position_at (Finite 4) (Finite 2))
         # [Selection (position_at (Finite 9) (Finite 0)) (position_at (Finite 9) (Finite 0))]"
    by (simp add: sample_defs cursor_moved_def)
  have plain: "\<not> isMarkdownFile sample_host (document (textEditor cursor_moved_elsewhere))"
    by (simp add: sample_defs cursor_moved_elsewhere_def)
  have evaluated: "calls world0 = []"
    "Uri_toString sample_host ((file_uri ''/docs/readme.md'')\<lparr>scheme := ''markdown''\<rparr>)
       = ''markdown:/docs/readme.md''"
    "getMarkdownUri sample_host (uri (document (textEditor cursor_moved)))
       = (file_uri ''/docs/readme.md'')\<lparr>scheme := ''markdown''\<rparr>"
    "line (active (Selection (position_at (Finite 3) (Finite 0)) (position_at (Finite 4) (Finite 2))))
       = Finite 4"
    by (simp_all add: sample_defs cursor_moved_def Selection_def position_at_def)
  show ?thesis
    using markdown plain
      selection_change_forwards_active_line [where H = sample_host and event = cursor_moved
        and w = world0
        and first = "Selection (position_at (Finite 3) (Finite 0)) (position_at (Finite 4) (Finite 2))"
        and others = "[Selection (position_at (Finite 9) (Finite 0)) (position_at (Finite 9) (Finite 0))]"]
      selection_change_forwards_active_line [where H = sample_host
        and event = cursor_moved_elsewhere and w = world0]
    by (simp add: evaluated)
qed

text \<open>
  Claim C7. For a URI and a fractional line that is not negative, while each step
  succeeds, the link-click
  handler opens the document, shows it, executes \<^verbatim>\<open>revealLine\<close> for the line rounded
  down, centered, and then sets the selection of the editor to the empty selection at
  column 0 of that line, in this order and with no other call.
\<close>

theorem didClick_opens_shows_reveals_selects:
  assumes "0 \<le> q"
    and "decodeURIComponent H uri_string = Inr decoded"
    and "Uri_parse H (JsString decoded) = Inr sourceUri"
    and "openTextDocument H sourceUri (host_state w) = (Inr doc, h1)"
    and "showTextDocument H doc h1 = (Inr (Some ed), h2)"
    and "executeCommand H ''revealLine'' [ArgRevealLine (Finite (of_int \<lfloor>q\<rfloor>)) ''center''] h2
           = (Inr (), h3)"
  shows "didClick H uri_string (Finite q) w =
     (Inr (),
      w\<lparr>calls := calls w @
           [OpenTextDocument sourceUri,
            ShowTextDocument doc,
            ExecuteCommand ''revealLine'' [ArgRevealLine (Finite (of_int \<lfloor>q\<rfloor>)) ''center''],
            SetSelection ed (Selection (position_at (Finite (of_int \<lfloor>q\<rfloor>)) (Finite 0))
                                       (position_at (Finite (of_int \<lfloor>q\<rfloor>)) (Finite 0)))],
         host_state :=
           effect H (SetSelection ed (Selection (position_at (Finite (of_int \<lfloor>q\<rfloor>)) (Finite 0))
                                                (position_at (Finite (of_int \<lfloor>q\<rfloor>)) (Finite 0)))) h3\<rparr>)"
  using assms
  by (cases w)
     (simp add: didClick_def then_do_def vscode_openTextDocument_def vscode_showTextDocument_def
       vscode_executeCommand_def request_def await_def Position_def)

text \<open>On the sample host: a click on line 3.5 of the markdown document.\<close>

theorem didClick_opens_shows_reveals_selects_witness:
  "didClick sample_host ''file:///docs/readme.md'' (Finite (7 / 2)) world0 =
     (Inr (),
      world0\<lparr>calls :=
          [OpenTextDocument (file_uri ''/docs/readme.md''),
           ShowTextDocument readme,
           ExecuteCommand ''revealLine'' [ArgRevealLine (Finite 3) ''center''],
           SetSelection \<lparr>editor_id = 2, document = readme\<rparr>
             (Selection (position_at (Finite 3) (Finite 0)) (position_at (Finite 3) (Finite 0)))]\<rparr>)"
proof -
  have decoded: "decodeURIComponent sample_host ''file:///docs/readme.md''
      = Inr ''file:///docs/readme.md''"
    by (simp add: sample_defs)
  have parsed: "Uri_parse sample_host (JsString ''file:///docs/readme.md'')
      = Inr (file_uri ''/docs/readme.md'')"
    by (simp add: sample_defs)
  have opened: "openTextDocument sample_host (file_uri ''/docs/readme.md'') (host_state world0)
      = (Inr readme, ())"
    by (simp add: sample_defs)
  have shown: "showTextDocument sample_host readme ()
      = (Inr (Some \<lparr>editor_id = 2, document = readme\<rparr>), ())"
    by (simp add: sample_defs)
  have revealed: "executeCommand sample_host ''revealLine''
      [ArgRevealLine (Finite (of_int \<lfloor>7 / 2 :: rat\<rfloor>)) ''center''] () = (Inr (), ())"
    by (simp add: sample_defs)
  have line_number: "(0 :: rat) \<le> 7 / 2"
    by simp
  have rounded: "\<lfloor>7 / 2 :: rat\<rfloor> = 3"
    by (simp add: floor_eq_iff)
  show ?thesis
    using didClick_opens_shows_reveals_selects [OF line_number decoded parsed opened shown revealed]
    by (simp add: rounded world0_def)
qed

text \<open>
  Claim C8. Activation runs the loop over the installed extensions, and the loop
  always ends normally and makes exactly the expected calls: the trace of activation
  is the telemetry push, the registration of the content provider, the expected
  contributions of every installed extension in order, and the registrations. For an
  extension without a \<^verbatim>\<open>contributes\<close> block the body of the loop does nothing and
  nothing is expected. Every declared style or script of an installed extension that
  resolves is registered, whatever happened to the other items of the same or of
  another extension.
\<close>

theorem contributions_are_isolated:
  "fst (for_each (contribute H) extensions w) = Inr ()
   \<and> calls (snd (for_each (contribute H) extensions w))
       = calls w @ concat (map (expected_contributions H) extensions)
   \<and> (\<not> truthy (property (packageJSON extension) ''contributes'')
        \<longrightarrow> contribute H extension w = (Inr (), w)
            \<and> expected_contributions H extension = [])
   \<and> (extension \<in> set extensions
        \<and> item \<in> set (elements (property (property (packageJSON extension) ''contributes'')
                                     ''markdown.previewStyles''))
        \<and> resolveExtensionResources H extension item = Inr resource
        \<longrightarrow> AddStyle resource \<in> set (calls (snd (for_each (contribute H) extensions w))))
   \<and> (extension \<in> set extensions
        \<and> item \<in> set (elements (property (property (packageJSON extension) ''contributes'')
                                     ''markdown.previewScripts''))
        \<and> resolveExtensionResources H extension item = Inr resource
        \<longrightarrow> AddScript resource \<in> set (calls (snd (for_each (contribute H) extensions w))))
   \<and> fst (activate H w) = Inr ()
   \<and> calls (snd (activate H w))
       = calls w
         @ telemetry_push (new_reporter (getPackageInfo H (host_state w)))
         @ [RegisterTextDocumentContentProvider ''markdown'']
         @ concat (map (expected_contributions H) (installed H w))
         @ registrations (new_reporter (getPackageInfo H (host_state w)))
   \<and> (extension \<in> set (installed H w)
        \<and> item \<in> set (elements (property (property (packageJSON extension) ''contributes'')
                                     ''markdown.previewStyles''))
        \<and> resolveExtensionResources H extension item = Inr resource
        \<longrightarrow> AddStyle resource \<in> set (calls (snd (activate H w))))
   \<and> (extension \<in> set (installed H w)
        \<and> item \<in> set (elements (property (property (packageJSON extension) ''contributes'')
                                     ''markdown.previewScripts''))
        \<and> resolveExtensionResources H extension item = Inr resource
        \<longrightarrow> AddScript resource \<in> set (calls (snd (activate H w))))"
proof -
  obtain h where loop: "for_each (contribute H) extensions w =
     (Inr (), w\<lparr>calls := calls w @ concat (map (expected_contributions H) extensions),
                pending := pending w @ filter declares_plugins extensions,
                host_state := h\<rparr>)"
    using contributions_result [of H extensions w] by auto
  obtain h' where run: "activate H w =
     (Inr (), w\<lparr>calls := calls w
                  @ telemetry_push (new_reporter (getPackageInfo H (host_state w)))
                  @ [RegisterTextDocumentContentProvider ''markdown'']
                  @ concat (map (expected_contributions H) (installed H w))
                  @ registrations (new_reporter (getPackageInfo H (host_state w))),
                pending := pending w @ filter declares_plugins (installed H w),
                telemetryReporter := new_reporter (getPackageInfo H (host_state w)),
                host_state := h'\<rparr>)"
    using activate_result [of H w] by auto
  have skip: "contribute H extension w = (Inr (), w) \<and> expected_contributions H extension = []"
    if "\<not> truthy (property (packageJSON extension) ''contributes'')"
    using that no_contributes(1) [OF that, of H]
    by (cases "truthy (packageJSON extension)") (simp_all add: contribute_def Let_def)
  have loop_style: "AddStyle resource \<in> set (calls (snd (for_each (contribute H) extensions w)))"
    if "extension \<in> set extensions"
      and "item \<in> set (elements (property (property (packageJSON extension) ''contributes'')
                                     ''markdown.previewStyles''))"
      and "resolveExtensionResources H extension item = Inr resource"
    using expected_style_member [OF that] loop by simp
  have loop_script: "AddScript resource \<in> set (calls (snd (for_each (contribute H) extensions w)))"
    if "extension \<in> set extensions"
      and "item \<in> set (elements (property (property (packageJSON extension) ''contributes'')
                                     ''markdown.previewScripts''))"
      and "resolveExtensionResources H extension item = Inr resource"
    using expected_script_member [OF that] loop by simp
  have style: "AddStyle resource \<in> set (calls (snd (activate H w)))"
    if "extension \<in> set (installed H w)"
      and "item \<in> set (elements (property (property (packageJSON extension) ''contributes'')
                                     ''markdown.previewStyles''))"
      and "resolveExtensionResources H extension item = Inr resource"
    using expected_style_member [OF that] run by simp
  have script: "AddScript resource \<in> set (calls (snd (activate H w)))"
    if "extension \<in> set (installed H w)"
      and "item \<in> set (elements (property (property (packageJSON extension) ''contributes'')
                                     ''markdown.previewScripts''))"
      and "resolveExtensionResources H extension item = Inr resource"
    using expected_script_member [OF that] run by simp
  have ends: "fst (for_each (contribute H) extensions w) = Inr ()
      \<and> calls (snd (for_each (contribute H) extensions w))
          = calls w @ concat (map (expected_contributions H) extensions)"
    using loop by simp
  have activation: "fst (activate H w) = Inr ()
      \<and> calls (snd (activate H w))
          = calls w
            @ telemetry_push (new_reporter (getPackageInfo H (host_state w)))
            @ [RegisterTextDocumentContentProvider ''markdown'']
            @ concat (map (expected_contributions H) (installed H w))
            @ registrations (new_reporter (getPackageInfo H (host_state w)))"
    using run by simp
  show ?thesis
    using ends activation skip loop_style loop_script style script by blast
qed

text \<open>
  On the sample host, whose installed extensions are the six of the sample: the
  markdown extension has no \<^verbatim>\<open>contributes\<close> block; the second style of \<open>acme.theme\<close> does
  not resolve and the fourth is registered; the second script of \<open>acme.plugin\<close> is
  registered.
\<close>

theorem contributions_are_isolated_witness:
  "\<not> truthy (property (packageJSON markdown_extension) ''contributes'')
   \<and> contribute sample_host markdown_extension world0 = (Inr (), world0)
   \<and> installed sample_host world0 = sample_extensions
   \<and> theme_extension \<in> set sample_extensions
   \<and> resolveExtensionResources sample_host theme_extension (JsNumber (Finite 5))
       = Inl (Error ''not a string'')
   \<and> resolveExtensionResources sample_host theme_extension (JsString ''media/b.css'')
       = Inr (file_uri ''/ext/theme/media/b.css'')
   \<and> AddStyle (file_uri ''/ext/theme/media/b.css'')
       \<in> set (calls (snd (for_each (contribute sample_host) sample_extensions world0)))
   \<and> AddStyle (file_uri ''/ext/theme/media/b.css'')
       \<in> set (calls (snd (activate sample_host world0)))
   \<and> plugin_extension \<in> set sample_extensions
   \<and> resolveExtensionResources sample_host plugin_extension (JsString ''js/x.js'')
       = Inr (file_uri ''/ext/plugin/js/x.js'')
   \<and> AddScript (file_uri ''/ext/plugin/js/x.js'')
       \<in> set (calls (snd (for_each (contribute sample_host) sample_extensions world0)))
   \<and> AddScript (file_uri ''/ext/plugin/js/x.js'')
       \<in> set (calls (snd (activate sample_host world0)))"
proof -
  have none: "\<not> truthy (property (packageJSON markdown_extension) ''contributes'')"
    by (simp add: sample_defs property_def)
  have members: "theme_extension \<in> set sample_extensions" "plugin_extension \<in> set sample_extensions"
    by (simp_all add: sample_extensions_def)
  have installed_members: "theme_extension \<in> set (installed sample_host world0)"
    "plugin_extension \<in> set (installed sample_host world0)"
    by (simp_all add: installed_sample sample_extensions_def)
  have style_item: "JsString ''media/b.css''
      \<in> set (elements (property (property (packageJSON theme_extension) ''contributes'')
                                  ''markdown.previewStyles''))"
    and script_item: "JsString ''js/x.js''
      \<in> set (elements (property (property (packageJSON plugin_extension) ''contributes'')
                                  ''markdown.previewScripts''))"
    by (simp_all add: sample_defs property_def elements_def)
  have failing: "resolveExtensionResources sample_host theme_extension (JsNumber (Finite 5))
       = Inl (Error ''not a string'')"
    and style: "resolveExtensionResources sample_host theme_extension (JsString ''media/b.css'')
       = Inr (file_uri ''/ext/theme/media/b.css'')"
    and script: "resolveExtensionResources sample_host plugin_extension (JsString ''js/x.js'')
       = Inr (file_uri ''/ext/plugin/js/x.js'')"
    by (simp_all add: sample_defs resolveExtensionResources_def)
  have skipped: "contribute sample_host markdown_extension world0 = (Inr (), world0)"
    using none
      contributions_are_isolated [where H = sample_host and extensions = sample_extensions
        and w = world0 and extension = markdown_extension]
    by blast
  have style_added: "AddStyle (file_uri ''/ext/theme/media/b.css'')
       \<in> set (calls (snd (for_each (contribute sample_host) sample_extensions world0)))
     \<and> AddStyle (file_uri ''/ext/theme/media/b.css'')
       \<in> set (calls (snd (activate sample_host world0)))"
    using members installed_members style_item style
      contributions_are_isolated [where H = sample_host and extensions = sample_extensions
        and w = world0 and extension = theme_extension and item = "JsString ''media/b.css''"
        and resource = "file_uri ''/ext/theme/media/b.css''"]
    by blast
  have script_added: "AddScript (file_uri ''/ext/plugin/js/x.js'')
       \<in> set (calls (snd (for_each (contribute sample_host) sample_extensions world0)))
     \<and> AddScript (file_uri ''/ext/plugin/js/x.js'')
       \<in> set (calls (snd (activate sample_host world0)))"
    using members installed_members script_item script
      contributions_are_isolated [where H = sample_host and extensions = sample_extensions
        and w = world0 and extension = plugin_extension and item = "JsString ''js/x.js''"
        and resource = "file_uri ''/ext/plugin/js/x.js''"]
    by blast
  show ?thesis
    using none members failing style script skipped style_added script_added installed_sample
    by blast
qed

text \<open>
  Claim C9. Activation ends normally. The telemetry reporter is set exactly when
  \<^verbatim>\<open>getPackageInfo\<close> yields a record; it is then built from that record and pushed to
  the subscriptions exactly once. Without a record no reporter is pushed, the preview
  command is registered without a reporter, and activation runs to its last
  registration without reporting an error.
\<close>

theorem telemetry_reporter_iff_package_info:
  "fst (activate H w) = Inr ()
   \<and> (telemetryReporter (snd (activate H w)) \<noteq> None \<longleftrightarrow> getPackageInfo H (host_state w) \<noteq> None)
   \<and> (getPackageInfo H (host_state w) = Some info \<longrightarrow>
        telemetryReporter (snd (activate H w))
          = Some (TelemetryReporter (name info) (version info) (aiKey info))
        \<and> filter isTelemetryPush (calls (snd (activate H w)))
          = filter isTelemetryPush (calls w)
            @ [SubscriptionsPush (TelemetryReporterDisposable
                 (TelemetryReporter (name info) (version info) (aiKey info)))])
   \<and> (getPackageInfo H (host_state w) = None \<longrightarrow>
        telemetryReporter (snd (activate H w)) = None
        \<and> filter isTelemetryPush (calls (snd (activate H w))) = filter isTelemetryPush (calls w)
        \<and> CommandManagerRegister (ShowPreviewCommand None) \<in> set (calls (snd (activate H w)))
        \<and> last (calls (snd (activate H w)))
            = SubscriptionsPush (EventSubscription ''onDidChangeTextEditorSelection'')
        \<and> unhandled (snd (activate H w)) = unhandled w)"
proof -
  obtain h where run: "activate H w =
     (Inr (), w\<lparr>calls := calls w
                  @ telemetry_push (new_reporter (getPackageInfo H (host_state w)))
                  @ [RegisterTextDocumentContentProvider ''markdown'']
                  @ concat (map (expected_contributions H) (installed H w))
                  @ registrations (new_reporter (getPackageInfo H (host_state w))),
                pending := pending w @ filter declares_plugins (installed H w),
                telemetryReporter := new_reporter (getPackageInfo H (host_state w)),
                host_state := h\<rparr>)"
    using activate_result [of H w] by auto
  have last_call: "last (xs @ y # zs @ registrations r)
        = SubscriptionsPush (EventSubscription ''onDidChangeTextEditorSelection'')" for xs y zs r
    by (simp add: registrations_def)
  have preview: "CommandManagerRegister (ShowPreviewCommand r) \<in> set (registrations r)" for r
    by (simp add: registrations_def)
  show ?thesis
  proof (cases "getPackageInfo H (host_state w)")
    case None
    then show ?thesis
      using run preview [of None]
      by (simp add: new_reporter_def telemetry_push_def expected_no_telemetry
          registrations_no_telemetry last_call del: last_appendR last.simps)
  next
    case (Some found)
    then show ?thesis
      using run
      by (simp add: new_reporter_def telemetry_push_def expected_no_telemetry
          registrations_no_telemetry)
  qed
qed

text \<open>On the sample host, and on the same host without the record of the extension.\<close>

theorem telemetry_reporter_iff_package_info_witness:
  "getPackageInfo sample_host (host_state world0) = Some sample_info
   \<and> telemetryReporter (snd (activate sample_host world0))
       = Some (TelemetryReporter (JsString ''vscode-markdown'') (JsString ''1.0.0'') (JsString ''key''))
   \<and> filter isTelemetryPush (calls (snd (activate sample_host world0)))
       = [SubscriptionsPush (TelemetryReporterDisposable
            (TelemetryReporter (JsString ''vscode-markdown'') (JsString ''1.0.0'') (JsString ''key'')))]
   \<and> getPackageInfo no_metadata_host (host_state world0) = None
   \<and> fst (activate no_metadata_host world0) = Inr ()
   \<and> telemetryReporter (snd (activate no_metadata_host world0)) = None
   \<and> filter isTelemetryPush (calls (snd (activate no_metadata_host world0))) = []"
proof -
  have resolved: "getPackageInfo sample_host (host_state world0) = Some sample_info"
    by (simp add: getPackageInfo_def sample_defs sample_info_def property_def)
  have absent: "getPackageInfo no_metadata_host (host_state world0) = None"
    by (simp add: getPackageInfo_def no_metadata_host_def)
  have evaluated: "calls world0 = []" "name sample_info = JsString ''vscode-markdown''"
    "version sample_info = JsString ''1.0.0''" "aiKey sample_info = JsString ''key''"
    by (simp_all add: world0_def sample_info_def)
  show ?thesis
    using resolved absent
      telemetry_reporter_iff_package_info [where H = sample_host and w = world0
        and info = sample_info]
      telemetry_reporter_iff_package_info [where H = no_metadata_host and w = world0]
    by (simp add: evaluated)
qed

text \<open>
  Claim C10, as amended. When the activation of an extension completes and its
  exports, or the \<^verbatim>\<open>extendMarkdownIt\<close> member of its exports, are missing or falsy, the
  continuation makes no call and reports no error; when both are truthy it adds the
  plugin, whether the member is a function or not. When the declared styles (or
  scripts) are not an array, the body of the loop registers no style (or script).
\<close>

theorem missing_hook_or_non_array_is_skipped:
  "(extension_activate H extension (host_state w) = (Inr (), h1)
      \<and> \<not> (truthy (exports H h1 extension)
             \<and> truthy (property (exports H h1 extension) ''extendMarkdownIt''))
      \<longrightarrow> settle H extension w = (Inr (), w\<lparr>host_state := h1\<rparr>))
   \<and> (extension_activate H extension (host_state w) = (Inr (), h1)
      \<and> truthy (exports H h1 extension)
      \<and> truthy (property (exports H h1 extension) ''extendMarkdownIt'')
      \<longrightarrow> settle H extension w =
            (Inr (), w\<lparr>calls := calls w @ [AddPlugin extension],
                       host_state := effect H (AddPlugin extension) h1\<rparr>))
   \<and> (\<not> Array_isArray (property (property (packageJSON extension) ''contributes'')
                                    ''markdown.previewStyles'')
      \<longrightarrow> filter isAddStyle (calls (snd (contribute H extension w))) = filter isAddStyle (calls w))
   \<and> (\<not> Array_isArray (property (property (packageJSON extension) ''contributes'')
                                    ''markdown.previewScripts'')
      \<longrightarrow> filter isAddScript (calls (snd (contribute H extension w))) = filter isAddScript (calls w))"
proof -
  obtain h where body: "contribute H extension w =
     (Inr (), w\<lparr>calls := calls w @ expected_contributions H extension,
                pending := pending w @ (if declares_plugins extension then [extension] else []),
                host_state := h\<rparr>)"
    using contribute_result [of H extension w] by auto
  have styles: "filter isAddStyle (expected_contributions H extension) = []"
    if "\<not> Array_isArray (property (property (packageJSON extension) ''contributes'')
                                    ''markdown.previewStyles'')"
    using that
    by (simp add: expected_contributions_def Let_def elements_not_array registered_style_filters)
  have scripts: "filter isAddScript (expected_contributions H extension) = []"
    if "\<not> Array_isArray (property (property (packageJSON extension) ''contributes'')
                                    ''markdown.previewScripts'')"
    using that
    by (simp add: expected_contributions_def Let_def elements_not_array registered_style_filters)
  have skipped: "settle H extension w = (Inr (), w\<lparr>host_state := h1\<rparr>)"
    if "extension_activate H extension (host_state w) = (Inr (), h1)"
      and "\<not> (truthy (exports H h1 extension)
             \<and> truthy (property (exports H h1 extension) ''extendMarkdownIt''))"
    using that by (auto simp: settle_def detached_def then_do_def await_def onActivated_def)
  have added: "settle H extension w =
            (Inr (), w\<lparr>calls := calls w @ [AddPlugin extension],
                       host_state := effect H (AddPlugin extension) h1\<rparr>)"
    if "extension_activate H extension (host_state w) = (Inr (), h1)"
      and "truthy (exports H h1 extension)"
      and "truthy (property (exports H h1 extension) ''extendMarkdownIt'')"
    using that by (cases w) (simp add: settle_def detached_def then_do_def await_def onActivated_def)
  show ?thesis using body styles scripts skipped added by simp
qed

text \<open>
  On the sample host: \<open>acme.bare\<close> exports no hook and declares a string as its styles,
  \<open>acme.plugin\<close> exports the hook, \<open>acme.theme\<close> declares a string as its scripts.
\<close>

theorem missing_hook_or_non_array_is_skipped_witness:
  "extension_activate sample_host bare_extension (host_state world0) = (Inr (), ())
   \<and> \<not> truthy (property (exports sample_host () bare_extension) ''extendMarkdownIt'')
   \<and> settle sample_host bare_extension world0 = (Inr (), world0)
   \<and> extension_activate sample_host plugin_extension (host_state world0) = (Inr (), ())
   \<and> truthy (exports sample_host () plugin_extension)
   \<and> truthy (property (exports sample_host () plugin_extension) ''extendMarkdownIt'')
   \<and> settle sample_host plugin_extension world0
       = (Inr (), world0\<lparr>calls := [AddPlugin plugin_extension]\<rparr>)
   \<and> property (property (packageJSON bare_extension) ''contributes'') ''markdown.previewStyles''
       = JsString ''style.css''
   \<and> filter isAddStyle (calls (snd (contribute sample_host bare_extension world0))) = []
   \<and> property (property (packageJSON theme_extension) ''contributes'') ''markdown.previewScripts''
       = JsString ''main.js''
   \<and> filter isAddScript (calls (snd (contribute sample_host theme_extension world0))) = []"
proof -
  have bare: "extension_activate sample_host bare_extension (host_state world0) = (Inr (), ())
      \<and> \<not> truthy (property (exports sample_host () bare_extension) ''extendMarkdownIt'')"
    by (simp add: sample_defs property_def)
  have plugin: "extension_activate sample_host plugin_extension (host_state world0) = (Inr (), ())
      \<and> truthy (exports sample_host () plugin_extension)
      \<and> truthy (property (exports sample_host () plugin_extension) ''extendMarkdownIt'')"
    by (simp add: sample_defs property_def)
  have styles: "property (property (packageJSON bare_extension) ''contributes'')
        ''markdown.previewStyles'' = JsString ''style.css''"
    and scripts: "property (property (packageJSON theme_extension) ''contributes'')
        ''markdown.previewScripts'' = JsString ''main.js''"
    by (simp_all add: sample_defs property_def)
  have evaluated: "calls world0 = []" "world0\<lparr>host_state := ()\<rparr> = world0"
    "effect sample_host = (\<lambda>c h. h)"
    by (simp_all add: sample_defs)
  show ?thesis
    using bare plugin styles scripts
      missing_hook_or_non_array_is_skipped [where H = sample_host and w = world0
        and extension = bare_extension and ?h1.0 = "()"]
      missing_hook_or_non_array_is_skipped [where H = sample_host and w = world0
        and extension = plugin_extension and ?h1.0 = "()"]
      missing_hook_or_non_array_is_skipped [where H = sample_host and w = world0
        and extension = theme_extension and ?h1.0 = "()"]
    by (simp add: evaluated Array_isArray_def)
qed

text \<open>
  The claim as it was stated fails: \<open>acme.odd\<close> exposes no \<^verbatim>\<open>extendMarkdownIt\<close> function,
  only a string of that name, and a plugin is registered for it all the same, since
  line 90 tests the member for truthiness.
\<close>

theorem truthy_hook_counterexample:
  "extension_activate sample_host odd_extension (host_state world0) = (Inr (), ())
   \<and> \<not> is_function (property (exports sample_host () odd_extension) ''extendMarkdownIt'')
   \<and> settle sample_host odd_extension world0
       = (Inr (), world0\<lparr>calls := [AddPlugin odd_extension]\<rparr>)"
  by (simp add: sample_defs model_defs)

end
